theory Spec2Isabelle
  imports Main
begin

section \<open>Right-hand-side indexing of Stan containers (\<open>stan/model/indexing/rvalue.hpp\<close>)\<close>

text \<open>
  The header \<open>rvalue.hpp\<close> is a family of overloads \<open>rvalue(x, name, idx...)\<close>, selected by
  the shape of the container \<open>x\<close> (Eigen vector, Eigen matrix, \<open>std::vector\<close>) and by the
  types of the indices. The embedding keeps one HOL function per group of overloads
  (\<open>rvalue_vec\<close>, \<open>rvalue_mat\<close>, \<open>rvalue_mat2\<close>) and one function \<open>rvalue\<close> over a universal
  container type that plays the part of C++ overload resolution.

  Positions are C++ \<open>int\<close>s. They are modelled as unbounded \<open>int\<close>: a subtraction \<open>p - 1\<close>
  whose value the header uses is executed after \<open>check_range\<close> has accepted \<open>p\<close>, so
  \<open>1 \<le> p \<le> extent\<close> there and nothing wraps around. The two extents \<open>row_size\<close> and
  \<open>col_size\<close> of the overloads for \<open>index_min\<close> on a matrix are computed before the check;
  their value is dropped when the check raises.
  An exception is a value \<open>Inl e\<close> of the result type \<open>error + 'a\<close>; a view and an owned copy
  are both modelled by the value that the caller observes through them.
\<close>

subsection \<open>Index types\<close>

text \<open>
  Modelled from the spec: \<open>stan/model/indexing/index.hpp\<close> is not among the sources. The
  spec's data model lists the variants and their fields; the field names \<open>n_\<close>, \<open>ns_\<close>,
  \<open>min_\<close>, \<open>max_\<close> are the ones \<open>rvalue.hpp\<close> reads. The nil index list (NoOp) is the empty
  list of indices.
\<close>

datatype index =
    index_uni int
  | index_multi "int list"
  | index_omni
  | index_min int
  | index_max int
  | index_min_max int int

subsection \<open>Errors and the bounds check\<close>

text \<open>
  \<open>RangeError context name extent position\<close> is the \<open>std::out_of_range\<close> of
  \<open>math::check_range\<close>; \<open>DomainError\<close> is the \<open>std::domain_error\<close> of
  \<open>math::check_greater_or_equal\<close>. \<open>NoOverload\<close> stands for a call that C++ rejects at
  compile time because no overload of \<open>rvalue\<close> accepts it (a scalar with a range index, a
  vector with two indices, ...).
\<close>

datatype error =
    RangeError string string int int
  | DomainError string string int int
  | NoOverload

text \<open>
  Modelled from the spec: \<open>math::check_range\<close> belongs to the Stan Math library and is not
  among the sources. Spec, section 7: the error is raised when
  \<open>position < 1 || position > extent\<close> and carries the context label, the name, the extent
  and the offending position.
\<close>

definition check_range :: "string \<Rightarrow> string \<Rightarrow> int \<Rightarrow> int \<Rightarrow> error + unit" where
  "check_range function name extent position =
     (if position < 1 \<or> position > extent then Inl (RangeError function name extent position)
      else Inr ())"

text \<open>
  Modelled from the spec: \<open>math::check_greater_or_equal\<close> belongs to the Stan Math library
  and is not among the sources; it raises when the value is below the bound.
\<close>

definition check_greater_or_equal :: "string \<Rightarrow> string \<Rightarrow> int \<Rightarrow> int \<Rightarrow> error + unit" where
  "check_greater_or_equal function name y low =
     (if y < low then Inl (DomainError function name y low) else Inr ())"

text \<open>Sequencing of a check with the rest of the function body: an error ends the call.\<close>

definition and_then :: "error + unit \<Rightarrow> error + 'b \<Rightarrow> error + 'b" where
  "and_then c k = (case c of Inl e \<Rightarrow> Inl e | Inr _ \<Rightarrow> k)"

text \<open>
  The loop \<open>for (auto idx_i : idx.ns_) check_range(function, name, max, idx_i);\<close>
  that every multi-index overload runs before it gathers.
\<close>

fun check_range_each :: "string \<Rightarrow> string \<Rightarrow> int \<Rightarrow> int list \<Rightarrow> error + unit" where
  "check_range_each function name extent [] = Inr ()"
| "check_range_each function name extent (idx_i # ns) =
     and_then (check_range function name extent idx_i) (check_range_each function name extent ns)"

subsection \<open>Eigen vectors\<close>

text \<open>
  A dense vector (column or row) is the list of its coefficients. The Eigen members used by
  the header, at the arguments the header passes (all in range after the checks):
  \<open>coeff\<close>, \<open>segment(start, n)\<close>, \<open>head(n)\<close>, \<open>tail(n)\<close> and the gather \<open>v(indices)\<close>.
\<close>

definition coeff :: "'a list \<Rightarrow> int \<Rightarrow> 'a" where
  "coeff v i = v ! nat i"

definition segment :: "'a list \<Rightarrow> int \<Rightarrow> int \<Rightarrow> 'a list" where
  "segment v start n = take (nat n) (drop (nat start) v)"

definition head :: "'a list \<Rightarrow> int \<Rightarrow> 'a list" where
  "head v n = take (nat n) v"

definition tail :: "'a list \<Rightarrow> int \<Rightarrow> 'a list" where
  "tail v n = drop (length v - nat n) v"

definition gather :: "'a list \<Rightarrow> int list \<Rightarrow> 'a list" where
  "gather v is = map (\<lambda>i. coeff v i) is"

subsection \<open>Eigen matrices\<close>

text \<open>
  A dense matrix carries its two extents and its coefficients in column-major order, as
  Eigen stores them; a matrix with no rows still has columns, and the other way round.
\<close>

datatype 'a matrix = Mat (rows: nat) (cols: nat) (data: "'a list")

definition coeff2 :: "'a matrix \<Rightarrow> int \<Rightarrow> int \<Rightarrow> 'a" where
  "coeff2 x i j = data x ! (nat j * rows x + nat i)"

definition tabulate :: "nat \<Rightarrow> nat \<Rightarrow> (nat \<Rightarrow> nat \<Rightarrow> 'a) \<Rightarrow> 'a matrix" where
  "tabulate p q f = Mat p q (concat (map (\<lambda>c. map (\<lambda>r. f r c) [0..<p]) [0..<q]))"

definition row :: "'a matrix \<Rightarrow> int \<Rightarrow> 'a list" where
  "row x i = map (\<lambda>c. coeff2 x i (int c)) [0..<cols x]"

definition col :: "'a matrix \<Rightarrow> int \<Rightarrow> 'a list" where
  "col x j = map (\<lambda>r. coeff2 x (int r) j) [0..<rows x]"

definition block :: "'a matrix \<Rightarrow> int \<Rightarrow> int \<Rightarrow> int \<Rightarrow> int \<Rightarrow> 'a matrix" where
  "block x i j p q =
     tabulate (nat p) (nat q) (\<lambda>r c. coeff2 x (i + int r) (j + int c))"

definition topRows :: "'a matrix \<Rightarrow> int \<Rightarrow> 'a matrix" where
  "topRows x n = block x 0 0 n (int (cols x))"

definition bottomRows :: "'a matrix \<Rightarrow> int \<Rightarrow> 'a matrix" where
  "bottomRows x n = block x (int (rows x) - n) 0 n (int (cols x))"

definition middleRows :: "'a matrix \<Rightarrow> int \<Rightarrow> int \<Rightarrow> 'a matrix" where
  "middleRows x start n = block x start 0 n (int (cols x))"

definition leftCols :: "'a matrix \<Rightarrow> int \<Rightarrow> 'a matrix" where
  "leftCols x n = block x 0 0 (int (rows x)) n"

definition rightCols :: "'a matrix \<Rightarrow> int \<Rightarrow> 'a matrix" where
  "rightCols x n = block x 0 (int (cols x) - n) (int (rows x)) n"

definition middleCols :: "'a matrix \<Rightarrow> int \<Rightarrow> int \<Rightarrow> 'a matrix" where
  "middleCols x start n = block x 0 start (int (rows x)) n"

text \<open>The gathers \<open>x(rs, cs)\<close>, \<open>x(rs, Eigen::all)\<close>, \<open>x(Eigen::all, cs)\<close>, \<open>x(i, cs)\<close>, \<open>x(rs, j)\<close>.\<close>

definition gather2 :: "'a matrix \<Rightarrow> int list \<Rightarrow> int list \<Rightarrow> 'a matrix" where
  "gather2 x rs cs =
     tabulate (length rs) (length cs) (\<lambda>r c. coeff2 x (rs ! r) (cs ! c))"

definition gather_rows :: "'a matrix \<Rightarrow> int list \<Rightarrow> 'a matrix" where
  "gather_rows x rs = tabulate (length rs) (cols x) (\<lambda>r c. coeff2 x (rs ! r) (int c))"

definition gather_cols :: "'a matrix \<Rightarrow> int list \<Rightarrow> 'a matrix" where
  "gather_cols x cs = tabulate (rows x) (length cs) (\<lambda>r c. coeff2 x (int r) (cs ! c))"

definition gather_in_row :: "'a matrix \<Rightarrow> int \<Rightarrow> int list \<Rightarrow> 'a list" where
  "gather_in_row x i cs = map (\<lambda>j. coeff2 x i j) cs"

definition gather_in_col :: "'a matrix \<Rightarrow> int list \<Rightarrow> int \<Rightarrow> 'a list" where
  "gather_in_col x rs j = map (\<lambda>i. coeff2 x i j) rs"

text \<open>The header subtracts one from every entry of a multi-index: \<open>idx2 - 1\<close>.\<close>

definition minus_one :: "int list \<Rightarrow> int list" where
  "minus_one ns = map (\<lambda>n. n - 1) ns"

subsection \<open>Containers\<close>

datatype 'a container =
    Scalar 'a
  | Vector "'a list"
  | Matrix "'a matrix"
  | StdVec "'a container list"


subsection \<open>Vector overloads: \<open>rvalue(Vec&& v, const char* name, Idx idx)\<close>\<close>

text \<open>
  One equation per overload of the header, with its own context label. The equation for
  \<open>index_omni\<close> is the generic overload \<open>rvalue(T& x, name, index_omni)\<close>, which returns
  \<open>x\<close> itself.
\<close>

fun rvalue_vec :: "'a list \<Rightarrow> string \<Rightarrow> index \<Rightarrow> error + 'a container" where
  "rvalue_vec v name index_omni = Inr (Vector v)"
| "rvalue_vec v name (index_uni n) =
     and_then (check_range ''vector[uni] indexing'' name (int (length v)) n)
       (Inr (Scalar (coeff v (n - 1))))"
| "rvalue_vec v name (index_multi ns) =
     and_then (check_range_each ''vector[multi] indexing'' name (int (length v)) ns)
       (Inr (Vector (gather v (minus_one ns))))"
| "rvalue_vec v name (index_min_max lo hi) =
     and_then (check_range ''vector[min_max] min indexing'' name (int (length v)) lo)
       (let slice_start = lo - 1 in
        if hi \<ge> lo then
          and_then (check_range ''vector[min_max] max indexing'' name (int (length v)) hi)
            (let slice_size = hi - slice_start in Inr (Vector (segment v slice_start slice_size)))
        else Inr (Vector (segment v slice_start 0)))"
| "rvalue_vec x name (index_min lo) =
     and_then (check_range ''vector[min] indexing'' name (int (length x)) lo)
       (Inr (Vector (tail x (int (length x) - lo + 1))))"
| "rvalue_vec x name (index_max hi) =
     (if hi > 0 then
        and_then (check_range ''vector[max] indexing'' name (int (length x)) hi)
          (Inr (Vector (head x hi)))
      else Inr (Vector (head x 0)))"

subsection \<open>Matrix overloads with one index (a selection of rows)\<close>

fun rvalue_mat :: "'a matrix \<Rightarrow> string \<Rightarrow> index \<Rightarrow> error + 'a container" where
  "rvalue_mat x name index_omni = Inr (Matrix x)"
| "rvalue_mat x name (index_uni n) =
     and_then (check_range ''matrix[uni] indexing'' name (int (rows x)) n)
       (Inr (Vector (row x (n - 1))))"
| "rvalue_mat x name (index_multi ns) =
     and_then (check_range_each ''matrix[multi] row indexing'' name (int (rows x)) ns)
       (Inr (Matrix (gather_rows x (minus_one ns))))"
| "rvalue_mat x name (index_min lo) =
     (let row_size = int (rows x) - (lo - 1) in
      and_then (check_range ''matrix[min] row indexing'' name (int (rows x)) lo)
        (Inr (Matrix (bottomRows x row_size))))"
| "rvalue_mat x name (index_max hi) =
     (if hi > 0 then
        and_then (check_range ''matrix[max] row indexing'' name (int (rows x)) hi)
          (Inr (Matrix (topRows x hi)))
      else Inr (Matrix (topRows x 0)))"
| "rvalue_mat x name (index_min_max lo hi) =
     and_then (check_range ''matrix[min_max] min row indexing'' name (int (rows x)) lo)
       (if hi \<ge> lo then
          and_then (check_range ''matrix[min_max] max row indexing'' name (int (rows x)) hi)
            (Inr (Matrix (middleRows x (lo - 1) (hi - lo + 1))))
        else Inr (Matrix (middleRows x (lo - 1) 0)))"

subsection \<open>Matrix overloads with a row index and a column index\<close>

text \<open>
  The equations come in the order in which C++ prefers the overloads: the ones that name
  both index types first, then the ones that name the column index only and hand the row
  index \<open>Idx\<close> to a one-index overload on the selected columns. The indices are taken as
  the temporaries or non-const lvalues that a caller passes; for a const lvalue
  \<open>index_multi\<close> row index with an \<open>index_uni\<close> column C++ selects the generic overload
  \<open>(Idx, uni)\<close> instead, which returns the same values under other labels.
\<close>

fun rvalue_mat2 :: "'a matrix \<Rightarrow> string \<Rightarrow> index \<Rightarrow> index \<Rightarrow> error + 'a container" where
  "rvalue_mat2 x name index_omni index_omni = Inr (Matrix x)"
| "rvalue_mat2 x name (index_min_max row_min row_max) (index_min_max col_min col_max) =
     and_then (check_range ''matrix[min_max, min_max] min row indexing'' name
                 (int (rows x)) row_min)
    (and_then (check_range ''matrix[min_max, min_max] min column indexing'' name
                 (int (cols x)) col_min)
       (if row_max \<ge> row_min \<and> col_max \<ge> col_min then
          and_then (check_range ''matrix[min_max, min_max] max row indexing'' name
                      (int (rows x)) row_max)
         (and_then (check_range ''matrix[min_max, min_max] max column indexing'' name
                      (int (cols x)) col_max)
            (Inr (Matrix (block x (row_min - 1) (col_min - 1)
                            (row_max - (row_min - 1)) (col_max - (col_min - 1))))))
        else if row_max \<ge> row_min then
          and_then (check_range ''matrix[min_max, min_max] max row indexing'' name
                      (int (rows x)) row_max)
            (Inr (Matrix (block x (row_min - 1) (col_min - 1) (row_max - (row_min - 1)) 0)))
        else if col_max \<ge> col_min then
          and_then (check_range ''matrix[min_max, min_max] max column indexing'' name
                      (int (cols x)) col_max)
            (Inr (Matrix (block x (row_min - 1) (col_min - 1) 0 (col_max - (col_min - 1)))))
        else Inr (Matrix (block x (row_min - 1) (col_min - 1) 0 0))))"
| "rvalue_mat2 x name (index_uni r) (index_uni c) =
     and_then (check_range ''matrix[uni,uni] row indexing'' name (int (rows x)) r)
    (and_then (check_range ''matrix[uni,uni] column indexing'' name (int (cols x)) c)
       (Inr (Scalar (coeff2 x (r - 1) (c - 1)))))"
| "rvalue_mat2 x name (index_uni r) (index_multi cs) =
     and_then (check_range ''matrix[uni, multi] row indexing'' name (int (rows x)) r)
    (and_then (check_range_each ''matrix[uni, multi] column indexing'' name (int (cols x)) cs)
       (Inr (Vector (gather_in_row x (r - 1) (minus_one cs)))))"
| "rvalue_mat2 x name (index_multi rs) (index_uni c) =
     and_then (check_range ''matrix[multi, uni] column indexing'' name (int (cols x)) c)
    (and_then (check_range_each ''matrix[uni, multi] row indexing'' name (int (rows x)) rs)
       (Inr (Vector (gather_in_col x (minus_one rs) (c - 1)))))"
| "rvalue_mat2 x name (index_multi rs) (index_multi cs) =
     and_then (check_range_each ''matrix[uni, multi] row indexing'' name (int (rows x)) rs)
    (and_then (check_range_each ''matrix[uni, multi] col indexing'' name (int (cols x)) cs)
       (Inr (Matrix (gather2 x (minus_one rs) (minus_one cs)))))"
| "rvalue_mat2 x name row_idx (index_uni c) =
     and_then (check_range ''matrix[..., uni] column indexing'' name (int (cols x)) c)
       (rvalue_vec (col x (c - 1)) name row_idx)"
| "rvalue_mat2 x name row_idx (index_multi cs) =
     and_then (check_range_each ''matrix[..., multi] column indexing'' name (int (cols x)) cs)
       (rvalue_mat (gather_cols x (minus_one cs)) name row_idx)"
| "rvalue_mat2 x name row_idx index_omni = rvalue_mat x name row_idx"
| "rvalue_mat2 x name row_idx (index_min col_min) =
     (let col_size = int (cols x) - (col_min - 1) in
      and_then (check_range ''matrix[..., min] column indexing'' name (int (cols x)) col_min)
        (rvalue_mat (rightCols x col_size) name row_idx))"
| "rvalue_mat2 x name row_idx (index_max col_max) =
     (if col_max > 0 then
        and_then (check_range ''matrix[..., max] column indexing'' name (int (cols x)) col_max)
          (rvalue_mat (leftCols x col_max) name row_idx)
      else rvalue_mat (leftCols x 0) name row_idx)"
| "rvalue_mat2 x name row_idx (index_min_max col_min col_max) =
     and_then (check_range ''matrix[..., min_max] min column indexing'' name
                 (int (cols x)) col_min)
       (let col_start = col_min - 1 in
        if col_max \<ge> col_min then
          and_then (check_range ''matrix[..., min_max] max column indexing'' name
                      (int (cols x)) col_max)
            (rvalue_mat (middleCols x col_start (col_max - col_start)) name row_idx)
        else rvalue_mat (middleCols x col_start 0) name row_idx)"

subsection \<open>Positions selected by the first index of an array\<close>

text \<open>
  Modelled from the spec: \<open>rvalue_index_size.hpp\<close> is not among the sources. Spec, section
  4.4: the index size is the number of positions that the index selects against the
  length of the sequence, 0 for an empty Min, Max or MinMax range; section 3 gives the
  selected range of each variant (Min: from the bound to the end, Max: from the start to
  the bound, MinMax: from the lower to the upper bound, Omni: every position, Multi: its
  positions in order, Uni: one position). The header never asks for the size of a Uni.
\<close>

fun rvalue_index_size :: "index \<Rightarrow> int \<Rightarrow> int" where
  "rvalue_index_size (index_multi ns) sz = int (length ns)"
| "rvalue_index_size index_omni sz = sz"
| "rvalue_index_size (index_min lo) sz = (if sz < lo then 0 else sz - lo + 1)"
| "rvalue_index_size (index_max hi) sz = (if hi < 1 then 0 else hi)"
| "rvalue_index_size (index_min_max lo hi) sz = (if hi < lo then 0 else hi - lo + 1)"
| "rvalue_index_size (index_uni n) sz = 1"

text \<open>
  Modelled from the spec: \<open>rvalue_at.hpp\<close> is not among the sources. Spec, section 4.4:
  \<open>positions(idx1, i)\<close> is the 1-based source position of output position \<open>i\<close>, that is the
  \<open>i\<close>-th position of the selected range, counted from 0.
\<close>

fun rvalue_at :: "nat \<Rightarrow> index \<Rightarrow> int" where
  "rvalue_at i (index_multi ns) = ns ! i"
| "rvalue_at i index_omni = int i + 1"
| "rvalue_at i (index_min lo) = lo + int i"
| "rvalue_at i (index_max hi) = int i + 1"
| "rvalue_at i (index_min_max lo hi) = lo + int i"
| "rvalue_at i (index_uni n) = n"

text \<open>The two \<open>std::is_same\<close> tests on the type of the first index.\<close>

fun is_index_min_max :: "index \<Rightarrow> bool" where
  "is_index_min_max (index_min_max lo hi) = True"
| "is_index_min_max idx = False"

fun is_index_max :: "index \<Rightarrow> bool" where
  "is_index_max (index_max hi) = True"
| "is_index_max idx = False"

subsection \<open>The overload set as one function; arrays\<close>

text \<open>
  \<open>rvalue\<close> dispatches on the container and on the list of indices as overload resolution
  does. An empty list is the nil index list; a single \<open>index_omni\<close> and a pair of them
  select the generic overloads that return \<open>x\<close>, for every type of \<open>x\<close>. For a
  \<open>std::vector\<close> a leading \<open>index_uni\<close> recurses into one element and every other leading
  index runs the loop \<open>rvalue_loop\<close>, which is the \<open>for\<close> statement of the last overload
  of the header: \<open>rvalue_loop v name idx1 idxs index_size i\<close> is the part of the loop from
  iteration \<open>i\<close> on, and returns the entries of \<open>result\<close> from \<open>i\<close> on.
\<close>

function (sequential) rvalue :: "'a container \<Rightarrow> string \<Rightarrow> index list \<Rightarrow> error + 'a container"
  and rvalue_loop ::
    "'a container list \<Rightarrow> string \<Rightarrow> index \<Rightarrow> index list \<Rightarrow> int \<Rightarrow> nat \<Rightarrow> error + 'a container list"
where
  "rvalue x name [] = Inr x"
| "rvalue (Scalar s) name idxs =
     (if idxs = [index_omni] \<or> idxs = [index_omni, index_omni] then Inr (Scalar s)
      else Inl NoOverload)"
| "rvalue (Vector v) name [idx] = rvalue_vec v name idx"
| "rvalue (Vector v) name [idx1, idx2] =
     (if idx1 = index_omni \<and> idx2 = index_omni then Inr (Vector v) else Inl NoOverload)"
| "rvalue (Vector v) name idxs = Inl NoOverload"
| "rvalue (Matrix x) name [idx] = rvalue_mat x name idx"
| "rvalue (Matrix x) name [row_idx, col_idx] = rvalue_mat2 x name row_idx col_idx"
| "rvalue (Matrix x) name idxs = Inl NoOverload"
| "rvalue (StdVec v) name (index_uni n # idxs) =
     (case check_range ''array[uni, ...] index'' name (int (length v)) n of
        Inl e \<Rightarrow> Inl e
      | Inr _ \<Rightarrow> rvalue (v ! nat (n - 1)) name idxs)"
| "rvalue (StdVec v) name (idx1 # idxs) =
     (if idx1 = index_omni \<and> (idxs = [] \<or> idxs = [index_omni]) then Inr (StdVec v)
      else
        let index_size = rvalue_index_size idx1 (int (length v)) in
        case check_greater_or_equal ''array[..., ...] indexing'' ''size'' index_size 0 of
          Inl e \<Rightarrow> Inl e
        | Inr _ \<Rightarrow>
            if (is_index_min_max idx1 \<or> is_index_max idx1) \<and> index_size = 0
            then Inr (StdVec [])
            else (case rvalue_loop v name idx1 idxs index_size 0 of
                    Inl e \<Rightarrow> Inl e
                  | Inr result \<Rightarrow> Inr (StdVec result)))"
| "rvalue_loop v name idx1 idxs index_size i =
     (if int i < index_size then
        let n = rvalue_at i idx1 in
        case check_range ''array[..., ...] index'' name (int (length v)) n of
          Inl e \<Rightarrow> Inl e
        | Inr _ \<Rightarrow>
            (case rvalue (v ! nat (n - 1)) name idxs of
               Inl e \<Rightarrow> Inl e
             | Inr result_i \<Rightarrow>
                 (case rvalue_loop v name idx1 idxs index_size (Suc i) of
                    Inl e \<Rightarrow> Inl e
                  | Inr result \<Rightarrow> Inr (result_i # result)))
      else Inr [])"
  by pat_completeness auto
termination
proof (relation "measures
    [\<lambda>a. case a of Inl (x, name, idxs) \<Rightarrow> size x
                  | Inr (v, name, idx1, idxs, index_size, i) \<Rightarrow> size (StdVec v),
     \<lambda>a. case a of Inl _ \<Rightarrow> 1 | Inr _ \<Rightarrow> 0,
     \<lambda>a. case a of Inl _ \<Rightarrow> 0
                  | Inr (v, name, idx1, idxs, index_size, i) \<Rightarrow> nat (index_size - int i)]";
    clarsimp simp: check_range_def split: if_splits)
  fix v :: "'a container list" and n :: int
  assume "\<not> n < 1" and "\<not> int (length v) < n"
  then have "v ! nat (n - 1) \<in> set v"
    by (intro nth_mem) linarith
  then show "size (v ! nat (n - 1)) < Suc (size_list size v)"
    by (simp add: less_Suc_eq_le size_list_estimation')
next
  fix v :: "'a container list" and idx1 :: index and index_size :: int and i :: nat
  assume "int i < index_size" and "\<not> rvalue_at i idx1 < 1"
    and "\<not> int (length v) < rvalue_at i idx1"
  then have "v ! nat (rvalue_at i idx1 - 1) \<in> set v"
    by (intro nth_mem) linarith
  then show "size (v ! nat (rvalue_at i idx1 - 1)) < Suc (size_list size v)"
    by (simp add: less_Suc_eq_le size_list_estimation')
qed

subsection \<open>The bounds checks of a call, in the order of the code\<close>

text \<open>
  A bounds check is a call \<open>check_range(function, name, extent, position)\<close>; the name is
  the one of the call of \<open>rvalue\<close> throughout, so a check is recorded by its label, its
  extent and its position. \<open>in_range\<close> is the test that \<open>check_range\<close> makes.
\<close>

type_synonym bounds_check = "string \<times> int \<times> int"

definition in_range :: "bounds_check \<Rightarrow> bool" where
  "in_range k = (case k of (function, extent, position) \<Rightarrow> \<not> (position < 1 \<or> position > extent))"

text \<open>
  \<open>validations_vec\<close>, \<open>validations_mat\<close>, \<open>validations_mat2\<close> and \<open>validations\<close> list the calls
  of \<open>check_range\<close> in the body of each overload, equation by equation as in \<open>rvalue_vec\<close>,
  \<open>rvalue_mat\<close>, \<open>rvalue_mat2\<close> and \<open>rvalue\<close>, in the order in which the body reaches them
  when none of them raises: its validation order. The branches on the index values
  (\<open>max >= min\<close>, \<open>max > 0\<close>) are those of the body; an overload that hands the row
  index to another overload continues with the checks of that overload. In the overload
  for \<open>(multi, uni)\<close> and in those generic in the row index, the column comes first.
\<close>

fun validations_vec :: "'a list \<Rightarrow> index \<Rightarrow> bounds_check list" where
  "validations_vec v index_omni = []"
| "validations_vec v (index_uni n) = [(''vector[uni] indexing'', int (length v), n)]"
| "validations_vec v (index_multi ns) =
     map (\<lambda>idx_i. (''vector[multi] indexing'', int (length v), idx_i)) ns"
| "validations_vec v (index_min_max lo hi) =
     (''vector[min_max] min indexing'', int (length v), lo) #
     (if hi \<ge> lo then [(''vector[min_max] max indexing'', int (length v), hi)] else [])"
| "validations_vec x (index_min lo) = [(''vector[min] indexing'', int (length x), lo)]"
| "validations_vec x (index_max hi) =
     (if hi > 0 then [(''vector[max] indexing'', int (length x), hi)] else [])"

fun validations_mat :: "'a matrix \<Rightarrow> index \<Rightarrow> bounds_check list" where
  "validations_mat x index_omni = []"
| "validations_mat x (index_uni n) = [(''matrix[uni] indexing'', int (rows x), n)]"
| "validations_mat x (index_multi ns) =
     map (\<lambda>idx_i. (''matrix[multi] row indexing'', int (rows x), idx_i)) ns"
| "validations_mat x (index_min lo) = [(''matrix[min] row indexing'', int (rows x), lo)]"
| "validations_mat x (index_max hi) =
     (if hi > 0 then [(''matrix[max] row indexing'', int (rows x), hi)] else [])"
| "validations_mat x (index_min_max lo hi) =
     (''matrix[min_max] min row indexing'', int (rows x), lo) #
     (if hi \<ge> lo then [(''matrix[min_max] max row indexing'', int (rows x), hi)] else [])"

fun validations_mat2 :: "'a matrix \<Rightarrow> index \<Rightarrow> index \<Rightarrow> bounds_check list" where
  "validations_mat2 x index_omni index_omni = []"
| "validations_mat2 x (index_min_max row_min row_max) (index_min_max col_min col_max) =
     (''matrix[min_max, min_max] min row indexing'', int (rows x), row_min) #
     (''matrix[min_max, min_max] min column indexing'', int (cols x), col_min) #
     (if row_max \<ge> row_min \<and> col_max \<ge> col_min then
        [(''matrix[min_max, min_max] max row indexing'', int (rows x), row_max),
         (''matrix[min_max, min_max] max column indexing'', int (cols x), col_max)]
      else if row_max \<ge> row_min then
        [(''matrix[min_max, min_max] max row indexing'', int (rows x), row_max)]
      else if col_max \<ge> col_min then
        [(''matrix[min_max, min_max] max column indexing'', int (cols x), col_max)]
      else [])"
| "validations_mat2 x (index_uni r) (index_uni c) =
     [(''matrix[uni,uni] row indexing'', int (rows x), r),
      (''matrix[uni,uni] column indexing'', int (cols x), c)]"
| "validations_mat2 x (index_uni r) (index_multi cs) =
     (''matrix[uni, multi] row indexing'', int (rows x), r) #
     map (\<lambda>idx_i. (''matrix[uni, multi] column indexing'', int (cols x), idx_i)) cs"
| "validations_mat2 x (index_multi rs) (index_uni c) =
     (''matrix[multi, uni] column indexing'', int (cols x), c) #
     map (\<lambda>idx_i. (''matrix[uni, multi] row indexing'', int (rows x), idx_i)) rs"
| "validations_mat2 x (index_multi rs) (index_multi cs) =
     map (\<lambda>idx_i. (''matrix[uni, multi] row indexing'', int (rows x), idx_i)) rs @
     map (\<lambda>idx_j. (''matrix[uni, multi] col indexing'', int (cols x), idx_j)) cs"
| "validations_mat2 x row_idx (index_uni c) =
     (''matrix[..., uni] column indexing'', int (cols x), c) #
     validations_vec (col x (c - 1)) row_idx"
| "validations_mat2 x row_idx (index_multi cs) =
     map (\<lambda>idx_j. (''matrix[..., multi] column indexing'', int (cols x), idx_j)) cs @
     validations_mat (gather_cols x (minus_one cs)) row_idx"
| "validations_mat2 x row_idx index_omni = validations_mat x row_idx"
| "validations_mat2 x row_idx (index_min col_min) =
     (''matrix[..., min] column indexing'', int (cols x), col_min) #
     validations_mat (rightCols x (int (cols x) - (col_min - 1))) row_idx"
| "validations_mat2 x row_idx (index_max col_max) =
     (if col_max > 0 then
        (''matrix[..., max] column indexing'', int (cols x), col_max) #
        validations_mat (leftCols x col_max) row_idx
      else validations_mat (leftCols x 0) row_idx)"
| "validations_mat2 x row_idx (index_min_max col_min col_max) =
     (''matrix[..., min_max] min column indexing'', int (cols x), col_min) #
     (if col_max \<ge> col_min then
        (''matrix[..., min_max] max column indexing'', int (cols x), col_max) #
        validations_mat (middleCols x (col_min - 1) (col_max - (col_min - 1))) row_idx
      else validations_mat (middleCols x (col_min - 1) 0) row_idx)"

text \<open>
  For a \<open>std::vector\<close> the check of a position is followed by the checks made inside the
  element at that position, and then by the next position. An element at a position that
  is out of range is not entered. The termination proof has one goal for each recursive
  call: the one for \<open>index_uni\<close> and one for each other kind of first index.
\<close>

function (sequential) validations :: "'a container \<Rightarrow> index list \<Rightarrow> bounds_check list" where
  "validations x [] = []"
| "validations (Scalar s) idxs = []"
| "validations (Vector v) [idx] = validations_vec v idx"
| "validations (Vector v) idxs = []"
| "validations (Matrix x) [idx] = validations_mat x idx"
| "validations (Matrix x) [row_idx, col_idx] = validations_mat2 x row_idx col_idx"
| "validations (Matrix x) idxs = []"
| "validations (StdVec v) (index_uni n # idxs) =
     (''array[uni, ...] index'', int (length v), n) #
     (if in_range (''array[uni, ...] index'', int (length v), n)
      then validations (v ! nat (n - 1)) idxs else [])"
| "validations (StdVec v) (idx1 # idxs) =
     (if idx1 = index_omni \<and> (idxs = [] \<or> idxs = [index_omni]) then []
      else
        concat (map
          (\<lambda>i. (''array[..., ...] index'', int (length v), rvalue_at i idx1) #
               (if in_range (''array[..., ...] index'', int (length v), rvalue_at i idx1)
                then validations (v ! nat (rvalue_at i idx1 - 1)) idxs else []))
          [0..<nat (rvalue_index_size idx1 (int (length v)))]))"
  by pat_completeness auto
termination
proof (relation "measure (\<lambda>(x, idxs). size x)";
    clarsimp simp: in_range_def simp del: rvalue_at.simps rvalue_index_size.simps)
  fix v :: "'a container list" and n :: int
  assume "\<not> n < 1" and "\<not> int (length v) < n"
  then have "v ! nat (n - 1) \<in> set v"
    by (intro nth_mem) linarith
  then have elem: "size (v ! nat (n - 1)) < Suc (size_list size v)"
    by (simp add: less_Suc_eq_le size_list_estimation')
  show "size (v ! nat (n - 1)) < Suc (size_list size v)"
    by (rule elem)
  show "size (v ! nat (n - 1)) < Suc (size_list size v)"
    by (rule elem)
  show "size (v ! nat (n - 1)) < Suc (size_list size v)"
    by (rule elem)
  show "size (v ! nat (n - 1)) < Suc (size_list size v)"
    by (rule elem)
  show "size (v ! nat (n - 1)) < Suc (size_list size v)"
    by (rule elem)
  show "size (v ! nat (n - 1)) < Suc (size_list size v)"
    by (rule elem)
qed

text \<open>
  The first check of a sequence that fails, and the relation between the outcome of a call
  and a sequence of checks that the proofs below establish: a returned value means that no
  check of the sequence fails, a range error is the one of the first check that fails and
  carries the name of the call, and there is no domain error.
\<close>

definition first_invalid :: "bounds_check list \<Rightarrow> bounds_check option" where
  "first_invalid cs = List.find (\<lambda>k. \<not> in_range k) cs"

definition agrees :: "string \<Rightarrow> error + 'b \<Rightarrow> bounds_check list \<Rightarrow> bool" where
  "agrees name res cs =
     (case res of
        Inr y \<Rightarrow> first_invalid cs = None
      | Inl (RangeError function n extent position) \<Rightarrow>
          n = name \<and> first_invalid cs = Some (function, extent, position)
      | Inl (DomainError function n y low) \<Rightarrow> False
      | Inl NoOverload \<Rightarrow> True)"

section \<open>Properties\<close>

subsection \<open>Checks and slices\<close>

text \<open>The loop equation is unfolded by hand, one iteration at a time.\<close>

declare rvalue_loop.simps [simp del]

lemma and_then_Inl: "and_then (Inl e) k = Inl e"
  by (simp add: and_then_def)

lemma and_then_Inr: "and_then (Inr u) k = k"
  by (simp add: and_then_def)

lemma check_range_ok: "1 \<le> p \<Longrightarrow> p \<le> n \<Longrightarrow> check_range c name n p = Inr ()"
  by (simp add: check_range_def)

lemma check_range_bad:
  "p < 1 \<or> n < p \<Longrightarrow> check_range c name n p = Inl (RangeError c name n p)"
  by (auto simp: check_range_def)

lemma check_range_each_ok:
  "\<forall>p \<in> set ns. 1 \<le> p \<and> p \<le> n \<Longrightarrow> check_range_each c name n ns = Inr ()"
  by (induction ns) (simp_all add: check_range_ok and_then_Inr)

lemma check_range_each_first_bad:
  assumes "\<forall>p \<in> set good. 1 \<le> p \<and> p \<le> n" and "bad < 1 \<or> n < bad"
  shows "check_range_each c name n (good @ bad # rest) = Inl (RangeError c name n bad)"
  using assms
  by (induction good) (simp_all add: check_range_ok check_range_bad and_then_Inr and_then_Inl)

lemma length_segment:
  "0 \<le> start \<Longrightarrow> 0 \<le> k \<Longrightarrow> start + k \<le> int (length v) \<Longrightarrow>
   length (segment v start k) = nat k"
  by (auto simp: segment_def)

lemma nth_segment:
  "0 \<le> start \<Longrightarrow> i < nat k \<Longrightarrow> start + k \<le> int (length v) \<Longrightarrow>
   segment v start k ! i = v ! (nat start + i)"
  by (auto simp: segment_def)

subsection \<open>Vectors\<close>

text \<open>
  C1. For a vector \<open>v\<close> of extent \<open>n\<close> and a position \<open>p\<close> with \<open>1 \<le> p \<le> n\<close>, indexing \<open>v\<close>
  with \<open>index_uni p\<close> returns the scalar stored at offset \<open>p - 1\<close>; for \<open>p < 1\<close> or \<open>p > n\<close>
  it raises the range error with extent \<open>n\<close> and position \<open>p\<close>, and returns no value.
\<close>

theorem vector_uni:
  "(1 \<le> p \<and> p \<le> int (length v) \<longrightarrow>
      rvalue (Vector v) name [index_uni p] = Inr (Scalar (v ! nat (p - 1)))) \<and>
   (p < 1 \<or> int (length v) < p \<longrightarrow>
      rvalue (Vector v) name [index_uni p] =
        Inl (RangeError ''vector[uni] indexing'' name (int (length v)) p))"
  by (auto simp: check_range_def and_then_def coeff_def)

theorem vector_uni_witness:
  "rvalue (Vector [10, 20, 30 :: int]) ''v'' [index_uni 2] = Inr (Scalar 20) \<and>
   rvalue (Vector [10, 20, 30 :: int]) ''v'' [index_uni 4] =
     Inl (RangeError ''vector[uni] indexing'' ''v'' 3 4) \<and>
   rvalue (Vector [10, 20, 30 :: int]) ''v'' [index_uni 0] =
     Inl (RangeError ''vector[uni] indexing'' ''v'' 3 0)"
  using vector_uni [of 2 "[10, 20, 30 :: int]" "''v''"]
    vector_uni [of 4 "[10, 20, 30 :: int]" "''v''"]
    vector_uni [of 0 "[10, 20, 30 :: int]" "''v''"]
  by simp

text \<open>
  C2. For a vector \<open>v\<close> of extent \<open>n\<close> and positions \<open>ps\<close> that all lie in \<open>[1, n]\<close>, indexing
  \<open>v\<close> with \<open>index_multi ps\<close> returns a vector of length \<open>|ps|\<close> whose \<open>i\<close>-th element is
  \<open>v[ps[i] - 1]\<close>: the order and the repetitions of \<open>ps\<close> are kept.
\<close>

theorem vector_multi_gather:
  assumes "\<forall>p \<in> set ps. 1 \<le> p \<and> p \<le> int (length v)"
  shows "\<exists>out. rvalue (Vector v) name [index_multi ps] = Inr (Vector out) \<and>
           length out = length ps \<and>
           (\<forall>i < length ps. out ! i = v ! nat (ps ! i - 1))"
  using assms
  by (simp add: check_range_each_ok and_then_Inr gather_def minus_one_def coeff_def)

theorem vector_multi_gather_witness:
  "rvalue (Vector [10, 20, 30, 40, 50 :: int]) ''v'' [index_multi [2, 2, 1]] =
     Inr (Vector [20, 20, 10])"
proof -
  have positions: "\<forall>p \<in> set [2, 2, 1]. 1 \<le> p \<and> p \<le> int (length [10, 20, 30, 40, 50 :: int])"
    by simp
  from vector_multi_gather [OF positions, of "''v''"] obtain out where
    out: "rvalue (Vector [10, 20, 30, 40, 50 :: int]) ''v'' [index_multi [2, 2, 1]] =
        Inr (Vector out)"
      "length out = 3" "\<forall>i < 3. out ! i = [10, 20, 30, 40, 50] ! nat ([2, 2, 1] ! i - 1)"
    by auto
  from out(3) have "out ! 0 = 20" "out ! Suc 0 = 20" "out ! Suc (Suc 0) = 10"
    by (simp_all add: All_less_Suc numeral_3_eq_3)
  with out(2) have "out = [20, 20, 10]"
    by (simp add: list_eq_iff_nth_eq All_less_Suc numeral_3_eq_3)
  with out(1) show ?thesis
    by (simp del: rvalue.simps)
qed

lemma segment_empty: "segment v start 0 = []"
  by (simp add: segment_def)

lemma rvalue_vec_min_max:
  "rvalue_vec v name (index_min_max lo hi) =
     (if lo < 1 \<or> int (length v) < lo then
        Inl (RangeError ''vector[min_max] min indexing'' name (int (length v)) lo)
      else if lo \<le> hi then
        (if int (length v) < hi then
           Inl (RangeError ''vector[min_max] max indexing'' name (int (length v)) hi)
         else Inr (Vector (segment v (lo - 1) (hi - lo + 1))))
      else Inr (Vector (segment v (lo - 1) 0)))"
proof -
  have eq: "hi - (lo - 1) = hi - lo + 1"
    by simp
  show ?thesis
    by (simp add: check_range_def and_then_def Let_def eq)
qed

text \<open>
  C3. Indexing a vector of extent \<open>n\<close> with \<open>index_min_max lo hi\<close> always checks \<open>lo\<close> against
  \<open>[1, n]\<close>. If \<open>hi \<ge> lo\<close> then \<open>hi\<close> is checked too and the result is the segment of length
  \<open>hi - lo + 1\<close> that starts at offset \<open>lo - 1\<close>. If \<open>hi < lo\<close> the result is the empty
  segment at offset \<open>lo - 1\<close> and \<open>hi\<close> is not checked, whatever its value.
\<close>

theorem vector_min_max:
  "rvalue (Vector v) name [index_min_max lo hi] =
     (if lo < 1 \<or> int (length v) < lo then
        Inl (RangeError ''vector[min_max] min indexing'' name (int (length v)) lo)
      else if lo \<le> hi then
        (if int (length v) < hi then
           Inl (RangeError ''vector[min_max] max indexing'' name (int (length v)) hi)
         else Inr (Vector (segment v (lo - 1) (hi - lo + 1))))
      else Inr (Vector (segment v (lo - 1) 0))) \<and>
   (1 \<le> lo \<and> lo \<le> hi \<and> hi \<le> int (length v) \<longrightarrow>
      length (segment v (lo - 1) (hi - lo + 1)) = nat (hi - lo + 1) \<and>
      (\<forall>i < nat (hi - lo + 1). segment v (lo - 1) (hi - lo + 1) ! i = v ! (nat (lo - 1) + i))) \<and>
   length (segment v (lo - 1) 0) = 0"
proof (intro conjI impI allI)
  show "rvalue (Vector v) name [index_min_max lo hi] =
     (if lo < 1 \<or> int (length v) < lo then
        Inl (RangeError ''vector[min_max] min indexing'' name (int (length v)) lo)
      else if lo \<le> hi then
        (if int (length v) < hi then
           Inl (RangeError ''vector[min_max] max indexing'' name (int (length v)) hi)
         else Inr (Vector (segment v (lo - 1) (hi - lo + 1))))
      else Inr (Vector (segment v (lo - 1) 0)))"
    by (simp only: rvalue.simps rvalue_vec_min_max)
next
  assume "1 \<le> lo \<and> lo \<le> hi \<and> hi \<le> int (length v)"
  then show "length (segment v (lo - 1) (hi - lo + 1)) = nat (hi - lo + 1)"
    by (intro length_segment) simp_all
next
  fix i
  assume "1 \<le> lo \<and> lo \<le> hi \<and> hi \<le> int (length v)" and "i < nat (hi - lo + 1)"
  then show "segment v (lo - 1) (hi - lo + 1) ! i = v ! (nat (lo - 1) + i)"
    by (intro nth_segment) simp_all
next
  show "length (segment v (lo - 1) 0) = 0"
    by (simp add: segment_empty)
qed

theorem vector_min_max_witness:
  "rvalue (Vector [10, 20, 30, 40, 50 :: int]) ''v'' [index_min_max 2 4] =
     Inr (Vector [20, 30, 40]) \<and>
   rvalue (Vector [10, 20, 30, 40, 50 :: int]) ''v'' [index_min_max 3 (-7)] = Inr (Vector []) \<and>
   rvalue (Vector [10, 20, 30, 40, 50 :: int]) ''v'' [index_min_max 6 2] =
     Inl (RangeError ''vector[min_max] min indexing'' ''v'' 5 6) \<and>
   rvalue (Vector [10, 20, 30, 40, 50 :: int]) ''v'' [index_min_max 2 6] =
     Inl (RangeError ''vector[min_max] max indexing'' ''v'' 5 6) \<and>
   length (segment [10, 20, 30, 40, 50 :: int] 1 3) = 3 \<and>
   segment [10, 20, 30, 40, 50 :: int] 1 3 ! 2 = 40"
  using vector_min_max [of "[10, 20, 30, 40, 50 :: int]" "''v''" 2 4]
    vector_min_max [of "[10, 20, 30, 40, 50 :: int]" "''v''" 3 "-7"]
    vector_min_max [of "[10, 20, 30, 40, 50 :: int]" "''v''" 6 2]
    vector_min_max [of "[10, 20, 30, 40, 50 :: int]" "''v''" 2 6]
  by (simp add: segment_def)

lemma rvalue_vec_max:
  "rvalue_vec v name (index_max hi) =
     (if 0 < hi then
        (if int (length v) < hi then
           Inl (RangeError ''vector[max] indexing'' name (int (length v)) hi)
         else Inr (Vector (take (nat hi) v)))
      else Inr (Vector []))"
  by (simp add: check_range_def and_then_def head_def)

text \<open>
  C4. Indexing a vector of extent \<open>n\<close> with \<open>index_max hi\<close>: if \<open>hi > 0\<close> then \<open>hi\<close> is checked
  against \<open>[1, n]\<close> and the result is the head of the first \<open>hi\<close> elements; if \<open>hi \<le> 0\<close> the
  result is empty and nothing is checked, so the call never raises, even on an empty
  vector. This differs from \<open>index_min_max lo hi\<close> with \<open>hi < lo\<close>, which still checks \<open>lo\<close>
  (last conjunct).
\<close>

theorem vector_max:
  "(0 < hi \<and> hi \<le> int (length v) \<longrightarrow>
      rvalue (Vector v) name [index_max hi] = Inr (Vector (take (nat hi) v))) \<and>
   (0 < hi \<and> int (length v) < hi \<longrightarrow>
      rvalue (Vector v) name [index_max hi] =
        Inl (RangeError ''vector[max] indexing'' name (int (length v)) hi)) \<and>
   (hi \<le> 0 \<longrightarrow> rvalue (Vector v) name [index_max hi] = Inr (Vector [])) \<and>
   (hi \<le> 0 \<longrightarrow> rvalue (Vector ([] :: 'a list)) name [index_max hi] = Inr (Vector [])) \<and>
   (lo \<le> 0 \<longrightarrow>
      rvalue (Vector v) name [index_min_max lo hi] =
        Inl (RangeError ''vector[min_max] min indexing'' name (int (length v)) lo))"
  unfolding rvalue.simps rvalue_vec_max rvalue_vec_min_max by simp

theorem vector_max_witness:
  "rvalue (Vector [10, 20, 30, 40, 50 :: int]) ''v'' [index_max 2] = Inr (Vector [10, 20]) \<and>
   rvalue (Vector [10, 20, 30, 40, 50 :: int]) ''v'' [index_max 6] =
     Inl (RangeError ''vector[max] indexing'' ''v'' 5 6) \<and>
   rvalue (Vector [10, 20, 30, 40, 50 :: int]) ''v'' [index_max 0] = Inr (Vector []) \<and>
   rvalue (Vector ([] :: int list)) ''v'' [index_max (-3)] = Inr (Vector []) \<and>
   rvalue (Vector [10, 20, 30, 40, 50 :: int]) ''v'' [index_min_max 0 (-3)] =
     Inl (RangeError ''vector[min_max] min indexing'' ''v'' 5 0)"
  using vector_max [of 2 "[10, 20, 30, 40, 50 :: int]" "''v''"]
    vector_max [of 6 "[10, 20, 30, 40, 50 :: int]" "''v''"]
    vector_max [of 0 "[10, 20, 30, 40, 50 :: int]" "''v''"]
    vector_max [of "-3" "[] :: int list" "''v''" 0]
    vector_max [of "-3" "[10, 20, 30, 40, 50 :: int]" "''v''" 0]
  by simp

subsection \<open>Matrices\<close>

lemma length_columns:
  "length (concat (map (\<lambda>c. map (\<lambda>r. f r c) [0..<p]) [0..<q])) = q * p"
  by (induction q) simp_all

lemma nth_columns:
  "r < p \<Longrightarrow> c < q \<Longrightarrow>
   concat (map (\<lambda>c. map (\<lambda>r. f r c) [0..<p]) [0..<q]) ! (c * p + r) = f r c"
proof (induction q)
  case 0
  then show ?case by simp
next
  case (Suc q)
  show ?case
  proof (cases "c < q")
    case True
    then have "c * p + r < q * p"
      using Suc.prems(1)
      by (metis Suc_leI add.commute add_less_cancel_left less_le_trans mult_Suc mult_le_mono1)
    with True Suc show ?thesis
      by (simp add: nth_append length_columns)
  next
    case False
    with Suc.prems have "c = q" by simp
    with Suc.prems show ?thesis
      by (simp add: nth_append length_columns)
  qed
qed

lemma rows_tabulate: "rows (tabulate p q f) = p"
  by (simp add: tabulate_def)

lemma cols_tabulate: "cols (tabulate p q f) = q"
  by (simp add: tabulate_def)

lemma coeff2_tabulate:
  "r < p \<Longrightarrow> c < q \<Longrightarrow> coeff2 (tabulate p q f) (int r) (int c) = f r c"
  by (simp add: tabulate_def coeff2_def nth_columns)

lemma rows_block: "rows (block x i j p q) = nat p"
  by (simp add: block_def rows_tabulate)

lemma cols_block: "cols (block x i j p q) = nat q"
  by (simp add: block_def cols_tabulate)

lemma coeff2_block:
  "r < nat p \<Longrightarrow> c < nat q \<Longrightarrow>
   coeff2 (block x i j p q) (int r) (int c) = coeff2 x (i + int r) (j + int c)"
  by (simp add: block_def coeff2_tabulate)

lemma rvalue_mat2_min_max_min_max:
  "rvalue_mat2 x name (index_min_max row_min row_max) (index_min_max col_min col_max) =
     (if row_min < 1 \<or> int (rows x) < row_min then
        Inl (RangeError ''matrix[min_max, min_max] min row indexing'' name
               (int (rows x)) row_min)
      else if col_min < 1 \<or> int (cols x) < col_min then
        Inl (RangeError ''matrix[min_max, min_max] min column indexing'' name
               (int (cols x)) col_min)
      else if row_min \<le> row_max \<and> col_min \<le> col_max then
        (if int (rows x) < row_max then
           Inl (RangeError ''matrix[min_max, min_max] max row indexing'' name
                  (int (rows x)) row_max)
         else if int (cols x) < col_max then
           Inl (RangeError ''matrix[min_max, min_max] max column indexing'' name
                  (int (cols x)) col_max)
         else Inr (Matrix (block x (row_min - 1) (col_min - 1)
                             (row_max - row_min + 1) (col_max - col_min + 1))))
      else if row_min \<le> row_max then
        (if int (rows x) < row_max then
           Inl (RangeError ''matrix[min_max, min_max] max row indexing'' name
                  (int (rows x)) row_max)
         else Inr (Matrix (block x (row_min - 1) (col_min - 1) (row_max - row_min + 1) 0)))
      else if col_min \<le> col_max then
        (if int (cols x) < col_max then
           Inl (RangeError ''matrix[min_max, min_max] max column indexing'' name
                  (int (cols x)) col_max)
         else Inr (Matrix (block x (row_min - 1) (col_min - 1) 0 (col_max - col_min + 1))))
      else Inr (Matrix (block x (row_min - 1) (col_min - 1) 0 0)))"
proof -
  have eq: "row_max - (row_min - 1) = row_max - row_min + 1"
    "col_max - (col_min - 1) = col_max - col_min + 1"
    by simp_all
  show ?thesis
    by (simp add: check_range_def and_then_def eq)
qed

text \<open>
  C5. Indexing a matrix with two \<open>index_min_max\<close> indices checks the row minimum and then
  the column minimum first. If both ranges are non-empty the row maximum and the column
  maximum are checked and the result is the block with \<open>row_max - row_min + 1\<close> rows and
  \<open>col_max - col_min + 1\<close> columns. If exactly one range is empty, the maximum of the
  other one is checked and the block has extent 0 along the empty dimension and the extent
  of the range along the other. If both are empty the block is 0 by 0. No branch raises
  because a range is empty. The last three conjuncts give the extents and the
  coefficients of a block.
\<close>

theorem matrix_min_max_min_max:
  "rvalue (Matrix x) name [index_min_max row_min row_max, index_min_max col_min col_max] =
     (if row_min < 1 \<or> int (rows x) < row_min then
        Inl (RangeError ''matrix[min_max, min_max] min row indexing'' name
               (int (rows x)) row_min)
      else if col_min < 1 \<or> int (cols x) < col_min then
        Inl (RangeError ''matrix[min_max, min_max] min column indexing'' name
               (int (cols x)) col_min)
      else if row_min \<le> row_max \<and> col_min \<le> col_max then
        (if int (rows x) < row_max then
           Inl (RangeError ''matrix[min_max, min_max] max row indexing'' name
                  (int (rows x)) row_max)
         else if int (cols x) < col_max then
           Inl (RangeError ''matrix[min_max, min_max] max column indexing'' name
                  (int (cols x)) col_max)
         else Inr (Matrix (block x (row_min - 1) (col_min - 1)
                             (row_max - row_min + 1) (col_max - col_min + 1))))
      else if row_min \<le> row_max then
        (if int (rows x) < row_max then
           Inl (RangeError ''matrix[min_max, min_max] max row indexing'' name
                  (int (rows x)) row_max)
         else Inr (Matrix (block x (row_min - 1) (col_min - 1) (row_max - row_min + 1) 0)))
      else if col_min \<le> col_max then
        (if int (cols x) < col_max then
           Inl (RangeError ''matrix[min_max, min_max] max column indexing'' name
                  (int (cols x)) col_max)
         else Inr (Matrix (block x (row_min - 1) (col_min - 1) 0 (col_max - col_min + 1))))
      else Inr (Matrix (block x (row_min - 1) (col_min - 1) 0 0))) \<and>
   rows (block x i j p q) = nat p \<and>
   cols (block x i j p q) = nat q \<and>
   (\<forall>r < nat p. \<forall>c < nat q.
      coeff2 (block x i j p q) (int r) (int c) = coeff2 x (i + int r) (j + int c))"
proof (intro conjI allI impI)
  show "rvalue (Matrix x) name [index_min_max row_min row_max, index_min_max col_min col_max] =
     (if row_min < 1 \<or> int (rows x) < row_min then
        Inl (RangeError ''matrix[min_max, min_max] min row indexing'' name
               (int (rows x)) row_min)
      else if col_min < 1 \<or> int (cols x) < col_min then
        Inl (RangeError ''matrix[min_max, min_max] min column indexing'' name
               (int (cols x)) col_min)
      else if row_min \<le> row_max \<and> col_min \<le> col_max then
        (if int (rows x) < row_max then
           Inl (RangeError ''matrix[min_max, min_max] max row indexing'' name
                  (int (rows x)) row_max)
         else if int (cols x) < col_max then
           Inl (RangeError ''matrix[min_max, min_max] max column indexing'' name
                  (int (cols x)) col_max)
         else Inr (Matrix (block x (row_min - 1) (col_min - 1)
                             (row_max - row_min + 1) (col_max - col_min + 1))))
      else if row_min \<le> row_max then
        (if int (rows x) < row_max then
           Inl (RangeError ''matrix[min_max, min_max] max row indexing'' name
                  (int (rows x)) row_max)
         else Inr (Matrix (block x (row_min - 1) (col_min - 1) (row_max - row_min + 1) 0)))
      else if col_min \<le> col_max then
        (if int (cols x) < col_max then
           Inl (RangeError ''matrix[min_max, min_max] max column indexing'' name
                  (int (cols x)) col_max)
         else Inr (Matrix (block x (row_min - 1) (col_min - 1) 0 (col_max - col_min + 1))))
      else Inr (Matrix (block x (row_min - 1) (col_min - 1) 0 0)))"
    by (simp only: rvalue.simps rvalue_mat2_min_max_min_max)
  show "rows (block x i j p q) = nat p"
    by (rule rows_block)
  show "cols (block x i j p q) = nat q"
    by (rule cols_block)
  show "coeff2 (block x i j p q) (int r) (int c) = coeff2 x (i + int r) (j + int c)"
    if "r < nat p" and "c < nat q" for r c
    using that by (rule coeff2_block)
qed

theorem matrix_min_max_min_max_witness:
  "rvalue (Matrix (Mat 3 3 [1, 4, 7, 2, 5, 8, 3, 6, 9 :: int])) ''x''
     [index_min_max 2 3, index_min_max 1 2] = Inr (Matrix (Mat 2 2 [4, 7, 5, 8])) \<and>
   rvalue (Matrix (Mat 3 3 [1, 4, 7, 2, 5, 8, 3, 6, 9 :: int])) ''x''
     [index_min_max 2 3, index_min_max 2 1] = Inr (Matrix (Mat 2 0 [])) \<and>
   rvalue (Matrix (Mat 3 3 [1, 4, 7, 2, 5, 8, 3, 6, 9 :: int])) ''x''
     [index_min_max 2 1, index_min_max 1 2] = Inr (Matrix (Mat 0 2 [])) \<and>
   rvalue (Matrix (Mat 3 3 [1, 4, 7, 2, 5, 8, 3, 6, 9 :: int])) ''x''
     [index_min_max 2 1, index_min_max 3 0] = Inr (Matrix (Mat 0 0 [])) \<and>
   rvalue (Matrix (Mat 3 3 [1, 4, 7, 2, 5, 8, 3, 6, 9 :: int])) ''x''
     [index_min_max 2 1, index_min_max 4 0] =
       Inl (RangeError ''matrix[min_max, min_max] min column indexing'' ''x'' 3 4) \<and>
   coeff2 (block (Mat 3 3 [1, 4, 7, 2, 5, 8, 3, 6, 9 :: int]) 1 0 2 2) 1 1 = 8"
proof -
  have b: "block (Mat 3 3 [1, 4, 7, 2, 5, 8, 3, 6, 9 :: int]) 1 0 2 2 = Mat 2 2 [4, 7, 5, 8]"
    "block (Mat 3 3 [1, 4, 7, 2, 5, 8, 3, 6, 9 :: int]) 1 1 2 0 = Mat 2 0 []"
    "block (Mat 3 3 [1, 4, 7, 2, 5, 8, 3, 6, 9 :: int]) 1 0 0 2 = Mat 0 2 []"
    "block (Mat 3 3 [1, 4, 7, 2, 5, 8, 3, 6, 9 :: int]) 1 2 0 0 = Mat 0 0 []"
    by code_simp+
  have c: "coeff2 (Mat 3 3 [1, 4, 7, 2, 5, 8, 3, 6, 9 :: int]) 2 1 = 8"
    "coeff2 (Mat 2 2 [4, 7, 5, 8 :: int]) 1 1 = 8"
    by code_simp+
  show ?thesis
    using matrix_min_max_min_max
        [of "Mat 3 3 [1, 4, 7, 2, 5, 8, 3, 6, 9 :: int]" "''x''" 2 3 1 2 1 0 2 2]
      matrix_min_max_min_max
        [of "Mat 3 3 [1, 4, 7, 2, 5, 8, 3, 6, 9 :: int]" "''x''" 2 3 2 1 1 0 2 2]
      matrix_min_max_min_max
        [of "Mat 3 3 [1, 4, 7, 2, 5, 8, 3, 6, 9 :: int]" "''x''" 2 1 1 2 1 0 2 2]
      matrix_min_max_min_max
        [of "Mat 3 3 [1, 4, 7, 2, 5, 8, 3, 6, 9 :: int]" "''x''" 2 1 3 0 1 0 2 2]
      matrix_min_max_min_max
        [of "Mat 3 3 [1, 4, 7, 2, 5, 8, 3, 6, 9 :: int]" "''x''" 2 1 4 0 1 0 2 2]
    by (simp add: b c check_range_def and_then_def)
qed

lemma rvalue_one_index_matrix: "rvalue (Matrix x) name [idx] = rvalue_mat x name idx"
  by simp

lemma rvalue_mat2_omni: "rvalue_mat2 x name row_idx index_omni = rvalue_mat x name row_idx"
  by (cases row_idx) simp_all

text \<open>
  C9. \<open>index_omni\<close> is the identity on its axis: indexing a matrix with \<open>(row_idx, omni)\<close>
  gives what indexing it with \<open>row_idx\<close> alone gives, for every row index; and indexing any
  container with one \<open>index_omni\<close>, or with two, returns the container itself, without a
  check (the result is never an error). That the C++ overloads return a reference or move
  the argument, and so make no copy, is outside a model of values.
\<close>

theorem omni_identity:
  "rvalue (Matrix x) name [row_idx, index_omni] = rvalue (Matrix x) name [row_idx] \<and>
   rvalue c name [index_omni] = Inr c \<and>
   rvalue c name [index_omni, index_omni] = Inr c"
proof (intro conjI)
  show "rvalue (Matrix x) name [row_idx, index_omni] = rvalue (Matrix x) name [row_idx]"
    by (simp only: rvalue.simps rvalue_mat2_omni)
  show "rvalue c name [index_omni] = Inr c"
    by (cases c) simp_all
  show "rvalue c name [index_omni, index_omni] = Inr c"
    by (cases c) simp_all
qed

theorem omni_identity_witness:
  "rvalue (Matrix (Mat 3 3 [1, 4, 7, 2, 5, 8, 3, 6, 9 :: int])) ''x'' [index_uni 4, index_omni] =
     Inl (RangeError ''matrix[uni] indexing'' ''x'' 3 4) \<and>
   rvalue (StdVec [Vector [1, 2 :: int], Vector [3, 4, 5]]) ''x'' [index_omni] =
     Inr (StdVec [Vector [1, 2], Vector [3, 4, 5]]) \<and>
   rvalue (Matrix (Mat 3 3 [1, 4, 7, 2, 5, 8, 3, 6, 9 :: int])) ''x'' [index_omni, index_omni] =
     Inr (Matrix (Mat 3 3 [1, 4, 7, 2, 5, 8, 3, 6, 9]))"
  using omni_identity [of "Mat 3 3 [1, 4, 7, 2, 5, 8, 3, 6, 9 :: int]" "''x''" "index_uni 4"
      "StdVec [Vector [1, 2 :: int], Vector [3, 4, 5]]"]
    omni_identity [of "Mat 3 3 [1, 4, 7, 2, 5, 8, 3, 6, 9 :: int]" "''x''" "index_uni 4"
      "Matrix (Mat 3 3 [1, 4, 7, 2, 5, 8, 3, 6, 9 :: int])"]
  by (simp add: check_range_def and_then_def)

lemma rvalue_mat2_max_nonpositive:
  "hi \<le> 0 \<Longrightarrow> rvalue_mat2 x name row_idx (index_max hi) = rvalue_mat (leftCols x 0) name row_idx"
  by (cases row_idx) simp_all

lemma rows_leftCols: "rows (leftCols x n) = rows x"
  by (simp add: leftCols_def rows_block)

lemma cols_leftCols: "cols (leftCols x n) = nat n"
  by (simp add: leftCols_def cols_block)

lemma rvalue_mat_uni_bad:
  "r < 1 \<or> int (rows x) < r \<Longrightarrow>
   rvalue_mat x name (index_uni r) = Inl (RangeError ''matrix[uni] indexing'' name (int (rows x)) r)"
  by (simp add: check_range_bad and_then_Inl)

lemma rvalue_mat_multi_bad:
  "(\<forall>p \<in> set good. 1 \<le> p \<and> p \<le> int (rows x)) \<and> (bad < 1 \<or> int (rows x) < bad) \<Longrightarrow>
   rvalue_mat x name (index_multi (good @ bad # rest)) =
     Inl (RangeError ''matrix[multi] row indexing'' name (int (rows x)) bad)"
  by (simp add: check_range_each_first_bad and_then_Inl)

lemma rvalue_mat_min_bad:
  "lo < 1 \<or> int (rows x) < lo \<Longrightarrow>
   rvalue_mat x name (index_min lo) =
     Inl (RangeError ''matrix[min] row indexing'' name (int (rows x)) lo)"
  by (simp add: check_range_bad and_then_Inl)

lemma rvalue_mat_max_bad:
  "0 < h \<and> int (rows x) < h \<Longrightarrow>
   rvalue_mat x name (index_max h) =
     Inl (RangeError ''matrix[max] row indexing'' name (int (rows x)) h)"
  by (simp add: check_range_bad and_then_Inl)

lemma rvalue_mat_min_max_bad_min:
  "lo < 1 \<or> int (rows x) < lo \<Longrightarrow>
   rvalue_mat x name (index_min_max lo h) =
     Inl (RangeError ''matrix[min_max] min row indexing'' name (int (rows x)) lo)"
  by (simp add: check_range_bad and_then_Inl)

lemma rvalue_mat_min_max_bad_max:
  "1 \<le> lo \<and> lo \<le> int (rows x) \<and> lo \<le> h \<and> int (rows x) < h \<Longrightarrow>
   rvalue_mat x name (index_min_max lo h) =
     Inl (RangeError ''matrix[min_max] max row indexing'' name (int (rows x)) h)"
  by (simp add: check_range_bad check_range_ok and_then_Inl and_then_Inr)

text \<open>
  C10. Indexing a matrix with \<open>(row_idx, index_max hi)\<close> where \<open>hi \<le> 0\<close> skips the column
  check and applies \<open>row_idx\<close> to the sub-matrix of no columns, which has all the rows of
  the matrix; so the row index is checked in full against the row extent, and a row
  position out of range raises the range error although no column is selected.
\<close>

theorem matrix_nonpositive_max_column_checks_rows:
  assumes "hi \<le> 0"
  shows
  "rvalue (Matrix x) name [row_idx, index_max hi] = rvalue (Matrix (leftCols x 0)) name [row_idx] \<and>
   rows (leftCols x 0) = rows x \<and> cols (leftCols x 0) = 0 \<and>
   (r < 1 \<or> int (rows x) < r \<longrightarrow>
      rvalue (Matrix x) name [index_uni r, index_max hi] =
        Inl (RangeError ''matrix[uni] indexing'' name (int (rows x)) r)) \<and>
   ((\<forall>p \<in> set good. 1 \<le> p \<and> p \<le> int (rows x)) \<and> (bad < 1 \<or> int (rows x) < bad) \<longrightarrow>
      rvalue (Matrix x) name [index_multi (good @ bad # rest), index_max hi] =
        Inl (RangeError ''matrix[multi] row indexing'' name (int (rows x)) bad)) \<and>
   (lo < 1 \<or> int (rows x) < lo \<longrightarrow>
      rvalue (Matrix x) name [index_min lo, index_max hi] =
        Inl (RangeError ''matrix[min] row indexing'' name (int (rows x)) lo)) \<and>
   (0 < h \<and> int (rows x) < h \<longrightarrow>
      rvalue (Matrix x) name [index_max h, index_max hi] =
        Inl (RangeError ''matrix[max] row indexing'' name (int (rows x)) h)) \<and>
   (lo < 1 \<or> int (rows x) < lo \<longrightarrow>
      rvalue (Matrix x) name [index_min_max lo h, index_max hi] =
        Inl (RangeError ''matrix[min_max] min row indexing'' name (int (rows x)) lo)) \<and>
   (1 \<le> lo \<and> lo \<le> int (rows x) \<and> lo \<le> h \<and> int (rows x) < h \<longrightarrow>
      rvalue (Matrix x) name [index_min_max lo h, index_max hi] =
        Inl (RangeError ''matrix[min_max] max row indexing'' name (int (rows x)) h))"
proof -
  let ?y = "leftCols x 0"
  have sub: "rvalue (Matrix x) name [idx, index_max hi] = rvalue_mat ?y name idx" for idx
    using assms by (simp only: rvalue.simps rvalue_mat2_max_nonpositive)
  have ext: "rows ?y = rows x"
    by (rule rows_leftCols)
  have "rvalue (Matrix x) name [row_idx, index_max hi] = rvalue (Matrix ?y) name [row_idx]"
    by (simp only: sub rvalue_one_index_matrix)
  moreover have "cols ?y = 0"
    by (simp add: cols_leftCols)
  moreover have "rvalue (Matrix x) name [index_uni r, index_max hi] =
      Inl (RangeError ''matrix[uni] indexing'' name (int (rows x)) r)"
    if "r < 1 \<or> int (rows x) < r"
    unfolding sub by (rule rvalue_mat_uni_bad [of r ?y name, unfolded ext, OF that])
  moreover have "rvalue (Matrix x) name [index_multi (good @ bad # rest), index_max hi] =
      Inl (RangeError ''matrix[multi] row indexing'' name (int (rows x)) bad)"
    if "(\<forall>p \<in> set good. 1 \<le> p \<and> p \<le> int (rows x)) \<and> (bad < 1 \<or> int (rows x) < bad)"
    unfolding sub by (rule rvalue_mat_multi_bad [of good ?y bad name rest, unfolded ext, OF that])
  moreover have "rvalue (Matrix x) name [index_min lo, index_max hi] =
      Inl (RangeError ''matrix[min] row indexing'' name (int (rows x)) lo)"
    if "lo < 1 \<or> int (rows x) < lo"
    unfolding sub by (rule rvalue_mat_min_bad [of lo ?y name, unfolded ext, OF that])
  moreover have "rvalue (Matrix x) name [index_max h, index_max hi] =
      Inl (RangeError ''matrix[max] row indexing'' name (int (rows x)) h)"
    if "0 < h \<and> int (rows x) < h"
    unfolding sub by (rule rvalue_mat_max_bad [of h ?y name, unfolded ext, OF that])
  moreover have "rvalue (Matrix x) name [index_min_max lo h, index_max hi] =
      Inl (RangeError ''matrix[min_max] min row indexing'' name (int (rows x)) lo)"
    if "lo < 1 \<or> int (rows x) < lo"
    unfolding sub by (rule rvalue_mat_min_max_bad_min [of lo ?y name h, unfolded ext, OF that])
  moreover have "rvalue (Matrix x) name [index_min_max lo h, index_max hi] =
      Inl (RangeError ''matrix[min_max] max row indexing'' name (int (rows x)) h)"
    if "1 \<le> lo \<and> lo \<le> int (rows x) \<and> lo \<le> h \<and> int (rows x) < h"
    unfolding sub by (rule rvalue_mat_min_max_bad_max [of lo ?y h name, unfolded ext, OF that])
  ultimately show ?thesis
    using ext by blast
qed

theorem matrix_nonpositive_max_column_checks_rows_witness:
  "rvalue (Matrix (Mat 3 3 [1, 4, 7, 2, 5, 8, 3, 6, 9 :: int])) ''x'' [index_uni 4, index_max 0] =
     Inl (RangeError ''matrix[uni] indexing'' ''x'' 3 4) \<and>
   rvalue (Matrix (Mat 3 3 [1, 4, 7, 2, 5, 8, 3, 6, 9 :: int])) ''x''
     [index_multi [2, 5, 1], index_max (-1)] =
     Inl (RangeError ''matrix[multi] row indexing'' ''x'' 3 5) \<and>
   rvalue (Matrix (Mat 3 3 [1, 4, 7, 2, 5, 8, 3, 6, 9 :: int])) ''x'' [index_min 0, index_max 0] =
     Inl (RangeError ''matrix[min] row indexing'' ''x'' 3 0) \<and>
   rvalue (Matrix (Mat 3 3 [1, 4, 7, 2, 5, 8, 3, 6, 9 :: int])) ''x'' [index_max 4, index_max 0] =
     Inl (RangeError ''matrix[max] row indexing'' ''x'' 3 4) \<and>
   rvalue (Matrix (Mat 3 3 [1, 4, 7, 2, 5, 8, 3, 6, 9 :: int])) ''x''
     [index_min_max 2 4, index_max 0] =
     Inl (RangeError ''matrix[min_max] max row indexing'' ''x'' 3 4) \<and>
   rvalue (Matrix (Mat 3 3 [1, 4, 7, 2, 5, 8, 3, 6, 9 :: int])) ''x''
     [index_min_max 0 4, index_max 0] =
     Inl (RangeError ''matrix[min_max] min row indexing'' ''x'' 3 0) \<and>
   rvalue (Matrix (Mat 3 3 [1, 4, 7, 2, 5, 8, 3, 6, 9 :: int])) ''x'' [index_uni 2, index_max 0] =
     Inr (Vector [])"
proof -
  have le: "(0 :: int) \<le> 0" "(-1 :: int) \<le> 0"
    by simp_all
  have sub: "rvalue (Matrix (leftCols (Mat 3 3 [1, 4, 7, 2, 5, 8, 3, 6, 9 :: int]) 0)) ''x''
      [index_uni 2] = Inr (Vector [])"
    by code_simp
  show ?thesis
    using
      matrix_nonpositive_max_column_checks_rows [OF le(1),
        of "Mat 3 3 [1, 4, 7, 2, 5, 8, 3, 6, 9 :: int]" "''x''" "index_uni 2" 4 "[]" 0 "[]" 0 4]
      matrix_nonpositive_max_column_checks_rows [OF le(2),
        of "Mat 3 3 [1, 4, 7, 2, 5, 8, 3, 6, 9 :: int]" "''x''" "index_uni 2" 4 "[2]" 5 "[1]" 0 4]
      matrix_nonpositive_max_column_checks_rows [OF le(1),
        of "Mat 3 3 [1, 4, 7, 2, 5, 8, 3, 6, 9 :: int]" "''x''" "index_uni 2" 4 "[]" 0 "[]" 2 4]
    by (simp del: rvalue.simps add: sub)
qed

text \<open>
  C8. Every call of the bounds check is to pass the label of the combination of index kinds
  and of the dimension that it checks, with labels that tell the cells of the table of
  two-index matrix overloads apart. The overload for \<open>(multi, uni)\<close> labels its row check
  \<open>matrix[uni, multi] row indexing\<close>, and the overload for \<open>(multi, multi)\<close> labels both its
  checks \<open>matrix[uni, multi]\<close>: for a row position out of range the three overloads
  \<open>(multi, uni)\<close>, \<open>(uni, multi)\<close> and \<open>(multi, multi)\<close> raise the same error, label
  included. The column check of \<open>(multi, uni)\<close> carries the label of its own overload.
\<close>

theorem matrix_multi_row_label:
  "rvalue (Matrix (Mat 2 2 [1, 3, 2, 4 :: int])) ''x'' [index_multi [3], index_uni 1] =
     Inl (RangeError ''matrix[uni, multi] row indexing'' ''x'' 2 3) \<and>
   rvalue (Matrix (Mat 2 2 [1, 3, 2, 4 :: int])) ''x'' [index_uni 3, index_multi [1]] =
     Inl (RangeError ''matrix[uni, multi] row indexing'' ''x'' 2 3) \<and>
   rvalue (Matrix (Mat 2 2 [1, 3, 2, 4 :: int])) ''x'' [index_multi [3], index_multi [1]] =
     Inl (RangeError ''matrix[uni, multi] row indexing'' ''x'' 2 3) \<and>
   rvalue (Matrix (Mat 2 2 [1, 3, 2, 4 :: int])) ''x'' [index_multi [1], index_multi [3]] =
     Inl (RangeError ''matrix[uni, multi] col indexing'' ''x'' 2 3) \<and>
   rvalue (Matrix (Mat 2 2 [1, 3, 2, 4 :: int])) ''x'' [index_multi [1], index_uni 3] =
     Inl (RangeError ''matrix[multi, uni] column indexing'' ''x'' 2 3)"
  by (simp add: check_range_def and_then_def)

subsection \<open>Arrays\<close>

lemma rvalue_omni: "rvalue c name [index_omni] = Inr c"
  by (cases c) simp_all

lemma rvalue_index_size_nonneg: "0 \<le> sz \<Longrightarrow> 0 \<le> rvalue_index_size idx sz"
  by (cases idx) simp_all

lemma rvalue_loop_done:
  "\<not> int i < index_size \<Longrightarrow> rvalue_loop v name idx1 idxs index_size i = Inr []"
  by (subst rvalue_loop.simps) simp

lemma rvalue_loop_step:
  "int i < index_size \<Longrightarrow>
   rvalue_loop v name idx1 idxs index_size i =
     (case check_range ''array[..., ...] index'' name (int (length v)) (rvalue_at i idx1) of
        Inl e \<Rightarrow> Inl e
      | Inr _ \<Rightarrow>
          (case rvalue (v ! nat (rvalue_at i idx1 - 1)) name idxs of
             Inl e \<Rightarrow> Inl e
           | Inr result_i \<Rightarrow>
               (case rvalue_loop v name idx1 idxs index_size (Suc i) of
                  Inl e \<Rightarrow> Inl e
                | Inr result \<Rightarrow> Inr (result_i # result))))"
  by (subst rvalue_loop.simps) (simp add: Let_def)

lemma rvalue_loop_Inr_iff:
  "rvalue_loop v name idx1 idxs index_size i = Inr rs \<longleftrightarrow>
     int (length rs) = max 0 (index_size - int i) \<and>
     (\<forall>k < length rs.
        1 \<le> rvalue_at (i + k) idx1 \<and> rvalue_at (i + k) idx1 \<le> int (length v) \<and>
        rvalue (v ! nat (rvalue_at (i + k) idx1 - 1)) name idxs = Inr (rs ! k))"
proof (induction "nat (index_size - int i)" arbitrary: i rs)
  case 0
  then have "\<not> int i < index_size"
    by simp
  then show ?case
    by (auto simp: rvalue_loop_done)
next
  case (Suc d)
  then have lt: "int i < index_size"
    by linarith
  from Suc have "d = nat (index_size - int (Suc i))"
    by simp
  note IH = Suc.hyps(1) [OF this]
  show ?case
  proof (cases rs)
    case Nil
    with lt show ?thesis
      by (auto simp: rvalue_loop_step split: sum.splits)
  next
    case (Cons r0 rs')
    let ?n = "rvalue_at i idx1"
    have run: "rvalue_loop v name idx1 idxs index_size i = Inr (r0 # rs') \<longleftrightarrow>
        1 \<le> ?n \<and> ?n \<le> int (length v) \<and>
        rvalue (v ! nat (?n - 1)) name idxs = Inr r0 \<and>
        rvalue_loop v name idx1 idxs index_size (Suc i) = Inr rs'"
      by (auto simp: rvalue_loop_step [OF lt] check_range_def split: sum.splits)
    have len: "int (length (r0 # rs')) = max 0 (index_size - int i) \<longleftrightarrow>
        int (length rs') = max 0 (index_size - int (Suc i))"
      using lt by auto
    have all: "(\<forall>k < length (r0 # rs').
          1 \<le> rvalue_at (i + k) idx1 \<and> rvalue_at (i + k) idx1 \<le> int (length v) \<and>
          rvalue (v ! nat (rvalue_at (i + k) idx1 - 1)) name idxs = Inr ((r0 # rs') ! k)) \<longleftrightarrow>
        (1 \<le> ?n \<and> ?n \<le> int (length v) \<and> rvalue (v ! nat (?n - 1)) name idxs = Inr r0) \<and>
        (\<forall>k < length rs'.
          1 \<le> rvalue_at (Suc i + k) idx1 \<and> rvalue_at (Suc i + k) idx1 \<le> int (length v) \<and>
          rvalue (v ! nat (rvalue_at (Suc i + k) idx1 - 1)) name idxs = Inr (rs' ! k))"
      by (simp add: All_less_Suc2)
    show ?thesis
      unfolding Cons run len all IH by blast
  qed
qed


lemma rvalue_array_loop:
  assumes "\<forall>n. idx1 \<noteq> index_uni n"
    and "\<not> (idx1 = index_omni \<and> (idxs = [] \<or> idxs = [index_omni]))"
  shows "rvalue (StdVec v) name (idx1 # idxs) =
     (case rvalue_loop v name idx1 idxs (rvalue_index_size idx1 (int (length v))) 0 of
        Inl e \<Rightarrow> Inl e
      | Inr result \<Rightarrow> Inr (StdVec result))"
  using assms
  by (cases idx1) (auto simp: check_greater_or_equal_def Let_def rvalue_loop_done)

lemma rvalue_loop_abort:
  assumes "i \<le> k" and "int k < index_size"
    and "\<forall>j. i \<le> j \<and> j < k \<longrightarrow>
           1 \<le> rvalue_at j idx1 \<and> rvalue_at j idx1 \<le> int (length v) \<and>
           (\<exists>r. rvalue (v ! nat (rvalue_at j idx1 - 1)) name idxs = Inr r)"
    and "(case check_range ''array[..., ...] index'' name (int (length v)) (rvalue_at k idx1) of
            Inl e \<Rightarrow> Inl e
          | Inr _ \<Rightarrow> rvalue (v ! nat (rvalue_at k idx1 - 1)) name idxs) = Inl e"
  shows "rvalue_loop v name idx1 idxs index_size i = Inl e"
  using assms
proof (induction "k - i" arbitrary: i)
  case 0
  then have "i = k"
    by simp
  with 0 show ?case
    by (auto simp: rvalue_loop_step split: sum.splits)
next
  case (Suc d)
  then have lt: "i < k" and d: "d = k - Suc i"
    by simp_all
  from Suc.prems(3) lt obtain r where
    ok: "1 \<le> rvalue_at i idx1" "rvalue_at i idx1 \<le> int (length v)"
      "rvalue (v ! nat (rvalue_at i idx1 - 1)) name idxs = Inr r"
    by (metis le_refl)
  from lt have "Suc i \<le> k"
    by simp
  moreover have "\<forall>j. Suc i \<le> j \<and> j < k \<longrightarrow>
           1 \<le> rvalue_at j idx1 \<and> rvalue_at j idx1 \<le> int (length v) \<and>
           (\<exists>r. rvalue (v ! nat (rvalue_at j idx1 - 1)) name idxs = Inr r)"
    using Suc.prems(3) by (simp add: Suc_le_eq)
  ultimately have "rvalue_loop v name idx1 idxs index_size (Suc i) = Inl e"
    using Suc.prems(2,4) by (intro Suc.hyps(1) [OF d])
  moreover have "int i < index_size"
    using lt Suc.prems(2) by linarith
  ultimately show ?case
    using ok by (simp add: rvalue_loop_step check_range_ok)
qed

text \<open>
  C6. For a \<open>std::vector\<close> \<open>v\<close>, a first index \<open>idx1\<close> that is not an \<open>index_uni\<close> and further
  indices \<open>rest\<close>: the call returns \<open>r\<close> exactly when \<open>r\<close> is a sequence of length
  \<open>rvalue_index_size idx1 |v|\<close> such that, for every output position \<open>i\<close>, the source
  position \<open>n = rvalue_at i idx1\<close> lies in \<open>[1, |v|]\<close> and the \<open>i\<close>-th entry is the result of
  indexing \<open>v[n - 1]\<close> with \<open>rest\<close>. In particular the call returns whenever all positions
  are in range and all the elements can be indexed with \<open>rest\<close>.
\<close>

theorem array_general:
  assumes "\<forall>n. idx1 \<noteq> index_uni n"
  shows "rvalue (StdVec v) name (idx1 # rest) = Inr r \<longleftrightarrow>
     (\<exists>rs. r = StdVec rs \<and>
        int (length rs) = rvalue_index_size idx1 (int (length v)) \<and>
        (\<forall>i < length rs.
           1 \<le> rvalue_at i idx1 \<and> rvalue_at i idx1 \<le> int (length v) \<and>
           rvalue (v ! nat (rvalue_at i idx1 - 1)) name rest = Inr (rs ! i)))"
proof (cases "idx1 = index_omni \<and> (rest = [] \<or> rest = [index_omni])")
  case True
  have same: "(\<exists>rs. r = StdVec rs \<and> length rs = length v \<and> (\<forall>i < length rs. v ! i = rs ! i))
      \<longleftrightarrow> r = StdVec v"
    by (auto simp: list_eq_iff_nth_eq)
  from True have "rvalue (StdVec v) name (idx1 # rest) = Inr (StdVec v)"
    by auto
  with True same show ?thesis
    by (auto simp: rvalue_omni nat_add_distrib)
next
  case False
  have size: "0 \<le> rvalue_index_size idx1 (int (length v))"
    by (simp add: rvalue_index_size_nonneg)
  have "rvalue (StdVec v) name (idx1 # rest) = Inr r \<longleftrightarrow>
      (\<exists>rs. r = StdVec rs \<and>
         rvalue_loop v name idx1 rest (rvalue_index_size idx1 (int (length v))) 0 = Inr rs)"
    unfolding rvalue_array_loop [OF assms False]
    by (auto split: sum.splits)
  also have "\<dots> \<longleftrightarrow>
      (\<exists>rs. r = StdVec rs \<and>
        int (length rs) = rvalue_index_size idx1 (int (length v)) \<and>
        (\<forall>i < length rs.
           1 \<le> rvalue_at i idx1 \<and> rvalue_at i idx1 \<le> int (length v) \<and>
           rvalue (v ! nat (rvalue_at i idx1 - 1)) name rest = Inr (rs ! i)))"
    using size by (simp add: rvalue_loop_Inr_iff max_def)
  finally show ?thesis .
qed

theorem array_general_witness:
  "(\<forall>n. index_multi [2, 1, 2] \<noteq> index_uni n) \<and>
   rvalue (StdVec [Vector [1, 2 :: int], Vector [3, 4, 5]]) ''x''
     [index_multi [2, 1, 2], index_max 2] =
     Inr (StdVec [Vector [3, 4], Vector [1, 2], Vector [3, 4]])"
proof -
  have distinct: "\<forall>n. index_multi [2, 1, 2] \<noteq> index_uni n"
    by simp
  have elems: "rvalue (Vector [1, 2 :: int]) ''x'' [index_max 2] = Inr (Vector [1, 2])"
    "rvalue (Vector [3, 4, 5 :: int]) ''x'' [index_max 2] = Inr (Vector [3, 4])"
    by code_simp+
  show ?thesis
    using array_general [OF distinct, of "[Vector [1, 2 :: int], Vector [3, 4, 5]]" "''x''"
        "[index_max 2]" "StdVec [Vector [3, 4], Vector [1, 2], Vector [3, 4]]"]
    by (simp del: rvalue.simps add: elems All_less_Suc)
qed

subsection \<open>The first position out of range\<close>

lemma first_invalid_append:
  "first_invalid (cs @ ds) =
     (case first_invalid cs of Some k \<Rightarrow> Some k | None \<Rightarrow> first_invalid ds)"
  by (induction cs) (simp_all add: first_invalid_def)

lemma first_invalid_Some_iff:
  "first_invalid cs = Some k \<longleftrightarrow>
     (\<exists>before after. cs = before @ k # after \<and> (\<forall>j \<in> set before. in_range j) \<and> \<not> in_range k)"
proof (induction cs)
  case Nil
  then show ?case by (simp add: first_invalid_def)
next
  case (Cons c cs)
  show ?case
  proof (cases "in_range c")
    case True
    then have "first_invalid (c # cs) = first_invalid cs"
      by (simp add: first_invalid_def)
    moreover have "(\<exists>before after. c # cs = before @ k # after \<and>
          (\<forall>j \<in> set before. in_range j) \<and> \<not> in_range k) \<longleftrightarrow>
        (\<exists>before after. cs = before @ k # after \<and>
          (\<forall>j \<in> set before. in_range j) \<and> \<not> in_range k)"
      (is "?L \<longleftrightarrow> ?R")
    proof
      assume ?L
      then obtain before after where
        split: "c # cs = before @ k # after" "\<forall>j \<in> set before. in_range j" "\<not> in_range k"
        by blast
      with True obtain before' where "before = c # before'"
        by (cases before) auto
      with split show ?R
        by auto
    next
      assume ?R
      then obtain before after where
        "cs = before @ k # after" "\<forall>j \<in> set before. in_range j" "\<not> in_range k"
        by blast
      with True have "c # cs = (c # before) @ k # after \<and>
          (\<forall>j \<in> set (c # before). in_range j) \<and> \<not> in_range k"
        by simp
      then show ?L
        by blast
    qed
    ultimately show ?thesis
      using Cons.IH by simp
  next
    case False
    then have "first_invalid (c # cs) = Some c"
      by (simp add: first_invalid_def)
    moreover have "(\<exists>before after. c # cs = before @ k # after \<and>
          (\<forall>j \<in> set before. in_range j) \<and> \<not> in_range k) \<longleftrightarrow> k = c"
      (is "?L \<longleftrightarrow> _")
    proof
      assume ?L
      then obtain before after where
        split: "c # cs = before @ k # after" "\<forall>j \<in> set before. in_range j" "\<not> in_range k"
        by blast
      with False show "k = c"
        by (cases before) auto
    next
      assume "k = c"
      with False have "c # cs = [] @ k # cs \<and> (\<forall>j \<in> set []. in_range j) \<and> \<not> in_range k"
        by simp
      then show ?L
        by blast
    qed
    ultimately show ?thesis
      by auto
  qed
qed

lemma first_invalid_None_iff: "first_invalid cs = None \<longleftrightarrow> (\<forall>k \<in> set cs. in_range k)"
  by (auto simp: first_invalid_def find_None_iff)

lemma agrees_iff:
  "agrees name res cs \<longleftrightarrow>
     (\<forall>y. res = Inr y \<longrightarrow> first_invalid cs = None) \<and>
     (\<forall>f n e p. res = Inl (RangeError f n e p) \<longrightarrow>
        n = name \<and> first_invalid cs = Some (f, e, p)) \<and>
     (\<forall>f n y l. res \<noteq> Inl (DomainError f n y l))"
proof (cases res)
  case (Inl err)
  then show ?thesis
    by (cases err) (simp_all add: agrees_def)
next
  case (Inr y)
  then show ?thesis
    by (simp add: agrees_def)
qed

lemma agrees_Inr: "agrees name (Inr y) []"
  by (simp add: agrees_iff first_invalid_def)

lemma agrees_NoOverload: "agrees name (Inl NoOverload) cs"
  by (simp add: agrees_iff)

lemma agrees_check:
  "agrees name k cs \<Longrightarrow> agrees name (and_then (check_range f name e p) k) ((f, e, p) # cs)"
  by (simp add: agrees_iff check_range_def and_then_def first_invalid_def in_range_def)

lemma agrees_check_each:
  "agrees name k cs \<Longrightarrow>
   agrees name (and_then (check_range_each f name e ns) k) (map (\<lambda>p. (f, e, p)) ns @ cs)"
proof (induction ns)
  case Nil
  then show ?case by (simp add: and_then_def)
next
  case (Cons p ns)
  have "and_then (check_range_each f name e (p # ns)) k =
      and_then (check_range f name e p) (and_then (check_range_each f name e ns) k)"
    by (simp add: and_then_def split: sum.splits)
  with Cons show ?case
    by (simp add: agrees_check)
qed

lemma agrees_check_each_last:
  "agrees name (and_then (check_range_each f name e ns) (Inr y)) (map (\<lambda>p. (f, e, p)) ns)"
  using agrees_check_each [OF agrees_Inr, where name = name and f = f and e = e and ns = ns]
  by simp

lemma agrees_seq:
  assumes "agrees name r cs" and "\<And>y. r = Inr y \<Longrightarrow> agrees name (k y) ds"
  shows "agrees name (case r of Inl e \<Rightarrow> Inl e | Inr y \<Rightarrow> k y) (cs @ ds)"
proof (cases r)
  case (Inl err)
  with assms(1) show ?thesis
    by (simp add: agrees_iff first_invalid_append)
next
  case (Inr y)
  with assms(1) have "first_invalid cs = None"
    by (simp add: agrees_iff)
  then have "first_invalid (cs @ ds) = first_invalid ds"
    by (simp add: first_invalid_append)
  with assms(2) [OF Inr] Inr show ?thesis
    by (simp add: agrees_iff)
qed

lemma agrees_vec: "agrees name (rvalue_vec v name idx) (validations_vec v idx)"
  by (cases idx)
    (auto intro!: agrees_check agrees_check_each_last agrees_Inr simp: Let_def)

lemma agrees_mat: "agrees name (rvalue_mat x name idx) (validations_mat x idx)"
  by (cases idx)
    (auto intro!: agrees_check agrees_check_each_last agrees_Inr simp: Let_def)

lemma agrees_mat2:
  "agrees name (rvalue_mat2 x name row_idx col_idx) (validations_mat2 x row_idx col_idx)"
  by (cases row_idx; cases col_idx)
    (auto intro!: agrees_check agrees_check_each agrees_check_each_last agrees_Inr
       agrees_vec agrees_mat simp: Let_def)

lemma agrees_passing:
  "in_range k \<Longrightarrow> agrees name r cs \<Longrightarrow> agrees name r (k # cs)"
  by (simp add: agrees_iff first_invalid_def)

lemma agrees_failing:
  "\<not> in_range (f, e, p) \<Longrightarrow> agrees name (Inl (RangeError f name e p)) ((f, e, p) # cs)"
  by (simp add: agrees_iff first_invalid_def)

lemma agrees_result:
  "agrees name (case r of Inl e \<Rightarrow> Inl e | Inr y \<Rightarrow> Inr (g y)) cs = agrees name r cs"
  by (cases r) (simp_all add: agrees_iff)

lemma check_range_in_range:
  "check_range f name e p = (if in_range (f, e, p) then Inr () else Inl (RangeError f name e p))"
  by (simp add: check_range_def in_range_def)

lemma agrees_loop:
  assumes elems: "\<And>c. c \<in> set v \<Longrightarrow> agrees name (rvalue c name idxs) (validations c idxs)"
  shows "agrees name (rvalue_loop v name idx1 idxs index_size i)
     (concat (map
        (\<lambda>i. (''array[..., ...] index'', int (length v), rvalue_at i idx1) #
             (if in_range (''array[..., ...] index'', int (length v), rvalue_at i idx1)
              then validations (v ! nat (rvalue_at i idx1 - 1)) idxs else []))
        [i..<nat index_size]))"
proof (induction "nat index_size - i" arbitrary: i)
  case 0
  then have "\<not> int i < index_size"
    by linarith
  with 0 show ?case
    by (simp add: rvalue_loop_done agrees_Inr)
next
  case (Suc d)
  then have lt: "int i < index_size" "i < nat index_size"
    by linarith+
  let ?k = "(''array[..., ...] index'', int (length v), rvalue_at i idx1)"
  let ?step = "\<lambda>i. (''array[..., ...] index'', int (length v), rvalue_at i idx1) #
             (if in_range (''array[..., ...] index'', int (length v), rvalue_at i idx1)
              then validations (v ! nat (rvalue_at i idx1 - 1)) idxs else [])"
  from Suc have "d = nat index_size - Suc i"
    by simp
  then have IH: "agrees name (rvalue_loop v name idx1 idxs index_size (Suc i))
      (concat (map ?step [Suc i..<nat index_size]))"
    by (rule Suc.hyps(1))
  have unfold: "concat (map ?step [i..<nat index_size]) =
      ?step i @ concat (map ?step [Suc i..<nat index_size])"
    using lt(2) by (simp add: upt_conv_Cons)
  show ?case
  proof (cases "in_range ?k")
    case False
    then show ?thesis
      unfolding unfold rvalue_loop_step [OF lt(1)] check_range_in_range
      by (simp add: agrees_failing)
  next
    case True
    then have "nat (rvalue_at i idx1 - 1) < length v"
      by (simp add: in_range_def) linarith
    then have "v ! nat (rvalue_at i idx1 - 1) \<in> set v"
      by (rule nth_mem)
    then have elem: "agrees name (rvalue (v ! nat (rvalue_at i idx1 - 1)) name idxs)
        (validations (v ! nat (rvalue_at i idx1 - 1)) idxs)"
      by (rule elems)
    have rest: "agrees name
        (case rvalue_loop v name idx1 idxs index_size (Suc i) of
           Inl e \<Rightarrow> Inl e
         | Inr result \<Rightarrow> Inr (result_i # result))
        (concat (map ?step [Suc i..<nat index_size]))" for result_i
      using IH by (simp only: agrees_result)
    have "agrees name
        (case rvalue (v ! nat (rvalue_at i idx1 - 1)) name idxs of
           Inl e \<Rightarrow> Inl e
         | Inr result_i \<Rightarrow>
             (case rvalue_loop v name idx1 idxs index_size (Suc i) of
                Inl e \<Rightarrow> Inl e
              | Inr result \<Rightarrow> Inr (result_i # result)))
        (validations (v ! nat (rvalue_at i idx1 - 1)) idxs @
         concat (map ?step [Suc i..<nat index_size]))"
      using elem rest by (rule agrees_seq)
    with True show ?thesis
      unfolding unfold rvalue_loop_step [OF lt(1)] check_range_in_range
      by (simp add: agrees_passing)
  qed
qed

lemma agrees_rvalue: "agrees name (rvalue x name idxs) (validations x idxs)"
proof (induction x arbitrary: idxs)
  case (Scalar s)
  then show ?case
    by (cases idxs) (simp_all add: agrees_Inr agrees_NoOverload)
next
  case (Vector v)
  show ?case
  proof (cases idxs)
    case Nil
    then show ?thesis by (simp add: agrees_Inr)
  next
    case (Cons idx1 rest)
    then show ?thesis
      by (cases rest; cases "tl rest")
        (simp_all add: agrees_vec agrees_Inr agrees_NoOverload)
  qed
next
  case (Matrix m)
  show ?case
  proof (cases idxs)
    case Nil
    then show ?thesis by (simp add: agrees_Inr)
  next
    case (Cons idx1 rest)
    then show ?thesis
      by (cases rest; cases "tl rest")
        (simp_all add: agrees_mat agrees_mat2 agrees_NoOverload)
  qed
next
  case (StdVec v)
  show ?case
  proof (cases idxs)
    case Nil
    then show ?thesis by (simp add: agrees_Inr)
  next
    case (Cons idx1 rest)
    show ?thesis
    proof (cases "\<exists>n. idx1 = index_uni n")
      case True
      then obtain n where uni: "idx1 = index_uni n"
        by blast
      let ?k = "(''array[uni, ...] index'', int (length v), n)"
      show ?thesis
      proof (cases "in_range ?k")
        case False
        then show ?thesis
          unfolding Cons uni by (simp add: check_range_in_range agrees_failing)
      next
        case True
        then have "nat (n - 1) < length v"
          by (simp add: in_range_def) linarith
        then have "v ! nat (n - 1) \<in> set v"
          by (rule nth_mem)
        then have "agrees name (rvalue (v ! nat (n - 1)) name rest)
            (validations (v ! nat (n - 1)) rest)"
          by (rule StdVec.IH)
        with True show ?thesis
          unfolding Cons uni by (simp add: check_range_in_range agrees_passing)
      qed
    next
      case False
      then have not_uni: "\<forall>n. idx1 \<noteq> index_uni n"
        by blast
      show ?thesis
      proof (cases "idx1 = index_omni \<and> (rest = [] \<or> rest = [index_omni])")
        case True
        then show ?thesis
          unfolding Cons by (auto simp: agrees_Inr)
      next
        case identity: False
        have loop: "agrees name
            (rvalue_loop v name idx1 rest (rvalue_index_size idx1 (int (length v))) 0)
            (concat (map
              (\<lambda>i. (''array[..., ...] index'', int (length v), rvalue_at i idx1) #
                 (if in_range (''array[..., ...] index'', int (length v), rvalue_at i idx1)
                  then validations (v ! nat (rvalue_at i idx1 - 1)) rest else []))
              [0..<nat (rvalue_index_size idx1 (int (length v)))]))"
          by (rule agrees_loop) (rule StdVec.IH)
        have "validations (StdVec v) (idx1 # rest) =
            concat (map
              (\<lambda>i. (''array[..., ...] index'', int (length v), rvalue_at i idx1) #
                 (if in_range (''array[..., ...] index'', int (length v), rvalue_at i idx1)
                  then validations (v ! nat (rvalue_at i idx1 - 1)) rest else []))
              [0..<nat (rvalue_index_size idx1 (int (length v)))])"
          using not_uni identity
          by (cases idx1; hypsubst) (simp_all del: rvalue_at.simps rvalue_index_size.simps)
        with loop show ?thesis
          unfolding Cons rvalue_array_loop [OF not_uni identity]
          by (simp only: agrees_result)
      qed
    qed
  qed
qed

lemma rvalue_outcome:
  "(rvalue x name idxs \<noteq> Inl NoOverload \<longrightarrow>
      (rvalue x name idxs = Inl (RangeError c name e p) \<longleftrightarrow>
         (\<exists>before after. validations x idxs = before @ (c, e, p) # after \<and>
            (\<forall>k \<in> set before. in_range k) \<and> \<not> in_range (c, e, p))) \<and>
      ((\<exists>y. rvalue x name idxs = Inr y) \<longleftrightarrow>
         (\<forall>k \<in> set (validations x idxs). in_range k))) \<and>
   (rvalue x name idxs = Inl (RangeError c n e p) \<longrightarrow> n = name)"
proof -
  have agree: "agrees name (rvalue x name idxs) (validations x idxs)"
    by (rule agrees_rvalue)
  have name: "n = name" if "rvalue x name idxs = Inl (RangeError c n e p)"
    using agree that by (simp add: agrees_iff)
  have raised: "rvalue x name idxs = Inl (RangeError c name e p) \<longleftrightarrow>
      first_invalid (validations x idxs) = Some (c, e, p)"
    if "rvalue x name idxs \<noteq> Inl NoOverload"
  proof
    assume "rvalue x name idxs = Inl (RangeError c name e p)"
    with agree show "first_invalid (validations x idxs) = Some (c, e, p)"
      by (simp add: agrees_iff)
  next
    assume first: "first_invalid (validations x idxs) = Some (c, e, p)"
    show "rvalue x name idxs = Inl (RangeError c name e p)"
    proof (cases "rvalue x name idxs")
      case (Inr y)
      with agree first show ?thesis
        by (simp add: agrees_iff)
    next
      case (Inl err)
      with agree first that show ?thesis
        by (cases err) (auto simp: agrees_iff)
    qed
  qed
  have returned: "(\<exists>y. rvalue x name idxs = Inr y) \<longleftrightarrow>
      first_invalid (validations x idxs) = None"
    if "rvalue x name idxs \<noteq> Inl NoOverload"
  proof
    assume "\<exists>y. rvalue x name idxs = Inr y"
    with agree show "first_invalid (validations x idxs) = None"
      by (auto simp: agrees_iff)
  next
    assume none: "first_invalid (validations x idxs) = None"
    show "\<exists>y. rvalue x name idxs = Inr y"
    proof (cases "rvalue x name idxs")
      case (Inr y)
      then show ?thesis by simp
    next
      case (Inl err)
      with agree none that show ?thesis
        by (cases err) (auto simp: agrees_iff)
    qed
  qed
  show ?thesis
    using name raised returned
    unfolding first_invalid_Some_iff first_invalid_None_iff
    by blast
qed

lemma rvalue_raises_first_invalid:
  "rvalue x name idxs \<noteq> Inl NoOverload \<longrightarrow>
      (rvalue x name idxs = Inl (RangeError c name e p) \<longleftrightarrow>
         (\<exists>before after. validations x idxs = before @ (c, e, p) # after \<and>
            (\<forall>k \<in> set before. in_range k) \<and> \<not> in_range (c, e, p))) \<and>
      ((\<exists>y. rvalue x name idxs = Inr y) \<longleftrightarrow>
         (\<forall>k \<in> set (validations x idxs). in_range k))"
  using rvalue_outcome [of x name idxs c e p] by blast

lemma rvalue_error_name:
  "rvalue x name idxs = Inl (RangeError c n e p) \<longrightarrow> n = name"
  using rvalue_outcome [of x name idxs c e p n] by blast

lemma vector_multi_first_bad:
  "(\<forall>p \<in> set good. 1 \<le> p \<and> p \<le> int (length v)) \<and> (bad < 1 \<or> int (length v) < bad) \<longrightarrow>
      rvalue (Vector v) name [index_multi (good @ bad # rest)] =
        Inl (RangeError ''vector[multi] indexing'' name (int (length v)) bad)"
  by (simp add: check_range_each_first_bad and_then_Inl)

lemma array_first_bad_position:
  "(\<forall>n. lead \<noteq> index_uni n) \<and> int k < rvalue_index_size lead (int (length w)) \<and>
    (\<forall>j < k. 1 \<le> rvalue_at j lead \<and> rvalue_at j lead \<le> int (length w) \<and>
       (\<exists>r. rvalue (w ! nat (rvalue_at j lead - 1)) name more = Inr r)) \<and>
    (rvalue_at k lead < 1 \<or> int (length w) < rvalue_at k lead) \<longrightarrow>
      rvalue (StdVec w) name (lead # more) =
        Inl (RangeError ''array[..., ...] index'' name (int (length w)) (rvalue_at k lead))"
proof
  assume a: "(\<forall>n. lead \<noteq> index_uni n) \<and> int k < rvalue_index_size lead (int (length w)) \<and>
    (\<forall>j < k. 1 \<le> rvalue_at j lead \<and> rvalue_at j lead \<le> int (length w) \<and>
       (\<exists>r. rvalue (w ! nat (rvalue_at j lead - 1)) name more = Inr r)) \<and>
    (rvalue_at k lead < 1 \<or> int (length w) < rvalue_at k lead)"
  then have not_id: "\<not> (lead = index_omni \<and> (more = [] \<or> more = [index_omni]))"
    by auto
  have "rvalue_loop w name lead more (rvalue_index_size lead (int (length w))) 0 =
      Inl (RangeError ''array[..., ...] index'' name (int (length w)) (rvalue_at k lead))"
    using a by (intro rvalue_loop_abort [where k = k]) (auto simp: check_range_def)
  with a not_id show "rvalue (StdVec w) name (lead # more) =
        Inl (RangeError ''array[..., ...] index'' name (int (length w)) (rvalue_at k lead))"
    by (simp add: rvalue_array_loop)
qed

lemma array_first_bad_element:
  "(\<forall>n. lead \<noteq> index_uni n) \<and> int k < rvalue_index_size lead (int (length w)) \<and>
    (\<forall>j < k. 1 \<le> rvalue_at j lead \<and> rvalue_at j lead \<le> int (length w) \<and>
       (\<exists>r. rvalue (w ! nat (rvalue_at j lead - 1)) name more = Inr r)) \<and>
    1 \<le> rvalue_at k lead \<and> rvalue_at k lead \<le> int (length w) \<and>
    rvalue (w ! nat (rvalue_at k lead - 1)) name more = Inl err \<longrightarrow>
      rvalue (StdVec w) name (lead # more) = Inl err"
proof
  assume a: "(\<forall>n. lead \<noteq> index_uni n) \<and> int k < rvalue_index_size lead (int (length w)) \<and>
    (\<forall>j < k. 1 \<le> rvalue_at j lead \<and> rvalue_at j lead \<le> int (length w) \<and>
       (\<exists>r. rvalue (w ! nat (rvalue_at j lead - 1)) name more = Inr r)) \<and>
    1 \<le> rvalue_at k lead \<and> rvalue_at k lead \<le> int (length w) \<and>
    rvalue (w ! nat (rvalue_at k lead - 1)) name more = Inl err"
  then have not_id: "\<not> (lead = index_omni \<and> (more = [] \<or> more = [index_omni]))"
    by (auto simp: rvalue_omni)
  have "rvalue_loop w name lead more (rvalue_index_size lead (int (length w))) 0 = Inl err"
    using a by (intro rvalue_loop_abort [where k = k]) (auto simp: check_range_def)
  with a not_id show "rvalue (StdVec w) name (lead # more) = Inl err"
    by (simp add: rvalue_array_loop)
qed

text \<open>
  C7. In every call of \<open>rvalue\<close> the range error raised is the one of the first position, in
  the order in which the call validates positions (\<open>validations\<close>), that is out of range:
  every position validated before it is in range, and the positions after it have no
  effect on the outcome. A call returns a value only when no validated position is out
  of range, so an error comes with no result, partial or not. The premise excludes the
  calls that C++ rejects at compile time. The error carries the name of the call. The last
  three conjuncts restate this for the two loops: in the multi-index loop on a vector the
  error is the one for \<open>bad\<close> whatever positions \<open>rest\<close> follow the positions \<open>good\<close>; in the
  loop on a \<open>std::vector\<close>, if the iterations before \<open>k\<close> succeed, the error is the one for
  the position of iteration \<open>k\<close> when it is out of range, and the error \<open>err\<close> of indexing
  the element of iteration \<open>k\<close> when that fails.
\<close>

theorem first_invalid_position_aborts:
  "(rvalue x name idxs \<noteq> Inl NoOverload \<longrightarrow>
      (rvalue x name idxs = Inl (RangeError c name e p) \<longleftrightarrow>
         (\<exists>before after. validations x idxs = before @ (c, e, p) # after \<and>
            (\<forall>k \<in> set before. in_range k) \<and> \<not> in_range (c, e, p))) \<and>
      ((\<exists>y. rvalue x name idxs = Inr y) \<longleftrightarrow>
         (\<forall>k \<in> set (validations x idxs). in_range k))) \<and>
   (rvalue x name idxs = Inl (RangeError c n e p) \<longrightarrow> n = name) \<and>
   ((\<forall>p \<in> set good. 1 \<le> p \<and> p \<le> int (length v)) \<and> (bad < 1 \<or> int (length v) < bad) \<longrightarrow>
      rvalue (Vector v) name [index_multi (good @ bad # rest)] =
        Inl (RangeError ''vector[multi] indexing'' name (int (length v)) bad)) \<and>
   ((\<forall>n. lead \<noteq> index_uni n) \<and> int k < rvalue_index_size lead (int (length w)) \<and>
    (\<forall>j < k. 1 \<le> rvalue_at j lead \<and> rvalue_at j lead \<le> int (length w) \<and>
       (\<exists>r. rvalue (w ! nat (rvalue_at j lead - 1)) name more = Inr r)) \<and>
    (rvalue_at k lead < 1 \<or> int (length w) < rvalue_at k lead) \<longrightarrow>
      rvalue (StdVec w) name (lead # more) =
        Inl (RangeError ''array[..., ...] index'' name (int (length w)) (rvalue_at k lead))) \<and>
   ((\<forall>n. lead \<noteq> index_uni n) \<and> int k < rvalue_index_size lead (int (length w)) \<and>
    (\<forall>j < k. 1 \<le> rvalue_at j lead \<and> rvalue_at j lead \<le> int (length w) \<and>
       (\<exists>r. rvalue (w ! nat (rvalue_at j lead - 1)) name more = Inr r)) \<and>
    1 \<le> rvalue_at k lead \<and> rvalue_at k lead \<le> int (length w) \<and>
    rvalue (w ! nat (rvalue_at k lead - 1)) name more = Inl err \<longrightarrow>
      rvalue (StdVec w) name (lead # more) = Inl err)"
  by (intro conjI)
    (rule rvalue_raises_first_invalid rvalue_error_name vector_multi_first_bad
       array_first_bad_position array_first_bad_element)+

theorem first_invalid_position_aborts_witness:
  "rvalue (Matrix (Mat 2 2 [1, 3, 2, 4 :: int])) ''x'' [index_multi [3], index_uni 3] =
     Inl (RangeError ''matrix[multi, uni] column indexing'' ''x'' 2 3) \<and>
   validations (Matrix (Mat 2 2 [1, 3, 2, 4 :: int])) [index_multi [3], index_uni 3] =
     [(''matrix[multi, uni] column indexing'', 2, 3),
      (''matrix[uni, multi] row indexing'', 2, 3)] \<and>
   rvalue (Matrix (Mat 2 2 [1, 3, 2, 4 :: int])) ''x'' [index_min_max 1 3, index_min 2] =
     Inl (RangeError ''matrix[min_max] max row indexing'' ''x'' 2 3) \<and>
   validations (Matrix (Mat 2 2 [1, 3, 2, 4 :: int])) [index_min_max 1 3, index_min 2] =
     [(''matrix[..., min] column indexing'', 2, 2),
      (''matrix[min_max] min row indexing'', 2, 1),
      (''matrix[min_max] max row indexing'', 2, 3)] \<and>
   (\<exists>y. rvalue (Matrix (Mat 2 2 [1, 3, 2, 4 :: int])) ''x'' [index_multi [2, 1], index_uni 2] =
      Inr y) \<and>
   rvalue (Vector [10, 20, 30 :: int]) ''x'' [index_multi [1, 4, 5]] =
     Inl (RangeError ''vector[multi] indexing'' ''x'' 3 4) \<and>
   rvalue (StdVec [Vector [1, 2 :: int], Vector [3, 4, 5]]) ''x'' [index_max 3, index_uni 1] =
     Inl (RangeError ''array[..., ...] index'' ''x'' 2 3) \<and>
   rvalue (StdVec [Vector [1, 2 :: int], Vector [3, 4, 5]]) ''x'' [index_multi [2, 1, 4], index_uni 3] =
     Inl (RangeError ''vector[uni] indexing'' ''x'' 2 3)"
proof -
  let ?m = "Matrix (Mat 2 2 [1, 3, 2, 4 :: int])"
  have typed: "rvalue ?m ''x'' [index_multi [3], index_uni 3] \<noteq> Inl NoOverload"
    "rvalue ?m ''x'' [index_min_max 1 3, index_min 2] \<noteq> Inl NoOverload"
    "rvalue ?m ''x'' [index_multi [2, 1], index_uni 2] \<noteq> Inl NoOverload"
    by (simp_all add: check_range_def and_then_def rightCols_def rows_block)
  have order: "validations ?m [index_multi [3], index_uni 3] =
      [] @ (''matrix[multi, uni] column indexing'', 2, 3) #
        [(''matrix[uni, multi] row indexing'', 2, 3)]"
    "validations ?m [index_multi [2, 1], index_uni 2] =
      [(''matrix[multi, uni] column indexing'', 2, 2),
       (''matrix[uni, multi] row indexing'', 2, 2),
       (''matrix[uni, multi] row indexing'', 2, 1)]"
    by simp_all
  have order2: "validations ?m [index_min_max 1 3, index_min 2] =
      [(''matrix[..., min] column indexing'', 2, 2),
       (''matrix[min_max] min row indexing'', 2, 1)] @
      (''matrix[min_max] max row indexing'', 2, 3) # []"
    by (simp add: rightCols_def rows_block)
  have first: "\<exists>before after.
      validations ?m [index_multi [3], index_uni 3] =
        before @ (''matrix[multi, uni] column indexing'', 2, 3) # after \<and>
      (\<forall>k \<in> set before. in_range k) \<and>
      \<not> in_range (''matrix[multi, uni] column indexing'', 2, 3)"
    by (rule exI [of _ "[]"], rule exI [of _ "[(''matrix[uni, multi] row indexing'', 2, 3)]"])
      (simp del: validations.simps add: order in_range_def)
  have second: "\<exists>before after.
      validations ?m [index_min_max 1 3, index_min 2] =
        before @ (''matrix[min_max] max row indexing'', 2, 3) # after \<and>
      (\<forall>k \<in> set before. in_range k) \<and>
      \<not> in_range (''matrix[min_max] max row indexing'', 2, 3)"
    by (rule exI [of _ "[(''matrix[..., min] column indexing'', 2, 2),
          (''matrix[min_max] min row indexing'', 2, 1)]"], rule exI [of _ "[]"])
      (simp del: validations.simps add: order2 in_range_def)
  have third: "\<forall>k \<in> set (validations ?m [index_multi [2, 1], index_uni 2]). in_range k"
    by (simp del: validations.simps add: order in_range_def)
  have elems: "rvalue (Vector [1, 2 :: int]) ''x'' [index_uni 1] = Inr (Scalar 1)"
    "rvalue (Vector [3, 4, 5 :: int]) ''x'' [index_uni 1] = Inr (Scalar 3)"
    "rvalue (Vector [3, 4, 5 :: int]) ''x'' [index_uni 3] = Inr (Scalar 5)"
    "rvalue (Vector [1, 2 :: int]) ''x'' [index_uni 3] =
       Inl (RangeError ''vector[uni] indexing'' ''x'' 2 3)"
    by code_simp+
  note inst1 = first_invalid_position_aborts
    [where x = ?m and name = "''x''" and idxs = "[index_multi [3], index_uni 3]"
      and c = "''matrix[multi, uni] column indexing''" and e = 2 and p = 3
      and good = "[1]" and v = "[10, 20, 30 :: int]" and bad = 4 and rest = "[5]"
      and lead = "index_max 3" and k = 2 and w = "[Vector [1, 2 :: int], Vector [3, 4, 5]]"
      and more = "[index_uni 1]"]
  note inst2 = first_invalid_position_aborts
    [where x = ?m and name = "''x''" and idxs = "[index_min_max 1 3, index_min 2]"
      and c = "''matrix[min_max] max row indexing''" and e = 2 and p = 3
      and good = "[1]" and v = "[10, 20, 30 :: int]" and bad = 4 and rest = "[5]"
      and lead = "index_multi [2, 1, 4]" and k = 1
      and w = "[Vector [1, 2 :: int], Vector [3, 4, 5]]" and more = "[index_uni 3]"
      and err = "RangeError ''vector[uni] indexing'' ''x'' 2 3"]
  note inst3 = first_invalid_position_aborts
    [where x = ?m and name = "''x''" and idxs = "[index_multi [2, 1], index_uni 2]"]
  from inst1 typed(1) first
  have r1: "rvalue ?m ''x'' [index_multi [3], index_uni 3] =
      Inl (RangeError ''matrix[multi, uni] column indexing'' ''x'' 2 3)"
    by blast
  from inst2 typed(2) second
  have r2: "rvalue ?m ''x'' [index_min_max 1 3, index_min 2] =
      Inl (RangeError ''matrix[min_max] max row indexing'' ''x'' 2 3)"
    by blast
  from inst3 typed(3) third
  have r3: "\<exists>y. rvalue ?m ''x'' [index_multi [2, 1], index_uni 2] = Inr y"
    by blast
  have r4: "rvalue (Vector [10, 20, 30 :: int]) ''x'' [index_multi [1, 4, 5]] =
       Inl (RangeError ''vector[multi] indexing'' ''x'' 3 4) \<and>
     rvalue (StdVec [Vector [1, 2 :: int], Vector [3, 4, 5]]) ''x'' [index_max 3, index_uni 1] =
       Inl (RangeError ''array[..., ...] index'' ''x'' 2 3)"
    using inst1 by (simp del: rvalue.simps add: elems All_less_Suc numeral_2_eq_2)
  have r5: "rvalue (StdVec [Vector [1, 2 :: int], Vector [3, 4, 5]]) ''x''
       [index_multi [2, 1, 4], index_uni 3] =
       Inl (RangeError ''vector[uni] indexing'' ''x'' 2 3)"
    using inst2 by (simp del: rvalue.simps add: elems All_less_Suc numeral_2_eq_2)
  have o1: "validations ?m [index_multi [3], index_uni 3] =
      [(''matrix[multi, uni] column indexing'', 2, 3),
       (''matrix[uni, multi] row indexing'', 2, 3)]"
    using order(1) by simp
  have o2: "validations ?m [index_min_max 1 3, index_min 2] =
      [(''matrix[..., min] column indexing'', 2, 2),
       (''matrix[min_max] min row indexing'', 2, 1),
       (''matrix[min_max] max row indexing'', 2, 3)]"
    using order2 by simp
  from r1 o1 r2 o2 r3 r4 r5 show ?thesis
    by (simp only: simp_thms)
qed

end
